theory Spec2Isabelle
  imports Main "HOL-Library.Sublist"
begin

section \<open>Python strings\<close>

text \<open>
  A character of a Python \<open>str\<close> is a code point. The model has the code points
  U+0000 to U+00FF, \<open>Latin c\<close> for the 8-bit character \<open>c\<close> of the same number, and
  the code point U+03D2 (Greek upsilon with hook symbol), an upper case letter that
  \<open>str.lower\<close> leaves as it is. Other code points are outside the model. A \<open>str\<close>
  is a list of such characters, and \<open>str\<close> turns a string of 8-bit characters
  into one.
\<close>

datatype pychar = Latin char | Upsilon_Hook

type_synonym pystr = "pychar list"

primrec str :: "string \<Rightarrow> pystr" where
  "str [] = []"
| "str (c # cs) = Latin c # str cs"

text \<open>
  The character classes are Python's own on these code points: \<open>str.isspace\<close> (which
  is also what \<open>\s\<close>, \<open>str.split()\<close> and \<open>str.strip()\<close> use), \<open>\w\<close> of the
  \<open>re\<close> module for a \<open>str\<close> pattern, \<open>str.isupper\<close> of a single character and
  \<open>str.lower\<close>. First on U+0000 to U+00FF.
\<close>

definition code :: "char \<Rightarrow> nat" where
  "code c = of_char c"

definition latin_isspace :: "char \<Rightarrow> bool" where
  "latin_isspace c = (let n = code c in
     (9 \<le> n \<and> n \<le> 13) \<or> (28 \<le> n \<and> n \<le> 32) \<or> n = 133 \<or> n = 160)"

definition latin_isupper :: "char \<Rightarrow> bool" where
  "latin_isupper c = (let n = code c in
     (65 \<le> n \<and> n \<le> 90) \<or> (192 \<le> n \<and> n \<le> 214) \<or> (216 \<le> n \<and> n \<le> 222))"

definition latin_word_char :: "char \<Rightarrow> bool" where
  "latin_word_char c = (let n = code c in
     (48 \<le> n \<and> n \<le> 57) \<or> (65 \<le> n \<and> n \<le> 90) \<or> n = 95 \<or> (97 \<le> n \<and> n \<le> 122)
     \<or> n = 170 \<or> n = 178 \<or> n = 179 \<or> n = 181 \<or> n = 185 \<or> n = 186
     \<or> (188 \<le> n \<and> n \<le> 190) \<or> (192 \<le> n \<and> n \<le> 214) \<or> (216 \<le> n \<and> n \<le> 246)
     \<or> 248 \<le> n)"

definition latin_lower :: "char \<Rightarrow> char" where
  "latin_lower c = (if latin_isupper c then char_of (code c + 32) else c)"

text \<open>
  \<open>str.upper\<close> of one character is a string: the capital of U+00DF is \<open>SS\<close>. The
  capitals of U+00B5 and U+00FF are not among the characters of the model; the model
  leaves these two characters as they are.
\<close>

definition latin_upper :: "char \<Rightarrow> string" where
  "latin_upper c = (let n = code c in
     if n = 223 then ''SS''
     else if (97 \<le> n \<and> n \<le> 122) \<or> (224 \<le> n \<and> n \<le> 246) \<or> (248 \<le> n \<and> n \<le> 254)
       then [char_of (n - 32)]
     else [c])"

text \<open>
  Then on all characters of the model. U+03D2 is a letter, so a \<open>\w\<close> character, and
  in upper case; \<open>str.lower\<close> and \<open>str.upper\<close> leave it as it is.
\<close>

primrec py_isspace :: "pychar \<Rightarrow> bool" where
  "py_isspace (Latin c) = latin_isspace c"
| "py_isspace Upsilon_Hook = False"

primrec py_isupper :: "pychar \<Rightarrow> bool" where
  "py_isupper (Latin c) = latin_isupper c"
| "py_isupper Upsilon_Hook = True"

primrec re_word_char :: "pychar \<Rightarrow> bool" where
  "re_word_char (Latin c) = latin_word_char c"
| "re_word_char Upsilon_Hook = True"

primrec lower_char :: "pychar \<Rightarrow> pychar" where
  "lower_char (Latin c) = Latin (latin_lower c)"
| "lower_char Upsilon_Hook = Upsilon_Hook"

definition py_lower :: "pystr \<Rightarrow> pystr" where
  "py_lower s = map lower_char s"

primrec upper_char :: "pychar \<Rightarrow> pystr" where
  "upper_char (Latin c) = str (latin_upper c)"
| "upper_char Upsilon_Hook = [Upsilon_Hook]"

definition py_lstrip :: "pystr \<Rightarrow> pystr" where
  "py_lstrip s = dropWhile py_isspace s"

definition py_rstrip :: "pystr \<Rightarrow> pystr" where
  "py_rstrip s = rev (dropWhile py_isspace (rev s))"

definition py_strip :: "pystr \<Rightarrow> pystr" where
  "py_strip s = py_rstrip (py_lstrip s)"

text \<open>\<open>s.split()\<close>: the maximal runs of characters that are not whitespace.\<close>

function py_split :: "pystr \<Rightarrow> pystr list" where
  "py_split [] = []"
| "py_split (c # cs) =
     (if py_isspace c then py_split cs
      else (c # takeWhile (\<lambda>x. \<not> py_isspace x) cs)
             # py_split (dropWhile (\<lambda>x. \<not> py_isspace x) cs))"
  by pat_completeness auto
termination
  by (relation "measure length") (auto simp: le_imp_less_Suc length_dropWhile_le)

definition py_endswith :: "pystr \<Rightarrow> pystr \<Rightarrow> bool" where
  "py_endswith s suf = suffix suf s"

text \<open>\<open>sep.join(xs)\<close>.\<close>

fun py_join :: "pystr \<Rightarrow> pystr list \<Rightarrow> pystr" where
  "py_join sep [] = []"
| "py_join sep [x] = x"
| "py_join sep (x # y # ys) = x @ sep @ py_join sep (y # ys)"

text \<open>
  \<open>s.replace(old, new)\<close> for a non-empty \<open>old\<close>: the occurrences of \<open>old\<close> are
  found from the left, without overlap. The counter is the number of characters of a
  found occurrence still to be skipped.
\<close>

fun replace_scan :: "pystr \<Rightarrow> pystr \<Rightarrow> nat \<Rightarrow> pystr \<Rightarrow> pystr" where
  "replace_scan old new k [] = []"
| "replace_scan old new (Suc k) (c # cs) = replace_scan old new k cs"
| "replace_scan old new 0 (c # cs) =
     (if prefix old (c # cs) then new @ replace_scan old new (length old - 1) cs
      else c # replace_scan old new 0 cs)"

definition py_replace :: "pystr \<Rightarrow> pystr \<Rightarrow> pystr \<Rightarrow> pystr" where
  "py_replace s old new = replace_scan old new 0 s"

section \<open>Regular expressions of the program\<close>

text \<open>
  \<open>\b\<close> holds between two neighbouring positions when exactly one of them holds a
  \<open>\w\<close> character; the positions before the first and after the last character count
  as holding none.
\<close>

fun is_w :: "pychar option \<Rightarrow> bool" where
  "is_w None = False"
| "is_w (Some c) = re_word_char c"

fun first_char :: "pystr \<Rightarrow> pychar option" where
  "first_char [] = None"
| "first_char (c # cs) = Some c"

definition boundary :: "pychar option \<Rightarrow> pychar option \<Rightarrow> bool" where
  "boundary p n = (is_w p \<noteq> is_w n)"

text \<open>
  A literal character of a pattern against a character of the text; with
  \<open>re.IGNORECASE\<close> the two are compared up to case.
\<close>

definition char_match :: "bool \<Rightarrow> pychar \<Rightarrow> pychar \<Rightarrow> bool" where
  "char_match ic l c = (if ic then lower_char l = lower_char c else l = c)"

text \<open>
  \<open>lit_at ic lit p s\<close>: the pattern \<open>\b lit \b\<close> matches at the start of \<open>s\<close>,
  where \<open>p\<close> is the character before \<open>s\<close> and \<open>lit\<close> is a literal, non-empty
  string (what \<open>re.escape\<close> yields).
\<close>

fun lit_rest :: "bool \<Rightarrow> pystr \<Rightarrow> pychar option \<Rightarrow> pystr \<Rightarrow> bool" where
  "lit_rest ic [] p s = boundary p (first_char s)"
| "lit_rest ic (l # ls) p [] = False"
| "lit_rest ic (l # ls) p (c # cs) =
     (if char_match ic l c then lit_rest ic ls (Some c) cs else False)"

definition lit_at :: "bool \<Rightarrow> pystr \<Rightarrow> pychar option \<Rightarrow> pystr \<Rightarrow> bool" where
  "lit_at ic lit p s =
     (if boundary p (first_char s) then lit_rest ic lit p s else False)"

text \<open>
  \<open>re.sub(r"\b" + lit + r"\b", rep, s)\<close> for a replacement without a backslash,
  which \<open>re.sub\<close> inserts as it is: the matches are found from the left, without
  overlap. The counter is the number of characters of a match still to be skipped.
\<close>

fun sub_scan :: "bool \<Rightarrow> pystr \<Rightarrow> pystr \<Rightarrow> pychar option \<Rightarrow> nat \<Rightarrow> pystr \<Rightarrow> pystr" where
  "sub_scan ic lit rep p k [] = []"
| "sub_scan ic lit rep p (Suc k) (c # cs) = sub_scan ic lit rep (Some c) k cs"
| "sub_scan ic lit rep p 0 (c # cs) =
     (if lit_at ic lit p (c # cs) then rep @ sub_scan ic lit rep (Some c) (length lit - 1) cs
      else c # sub_scan ic lit rep (Some c) 0 cs)"

definition re_sub_word :: "bool \<Rightarrow> pystr \<Rightarrow> pystr \<Rightarrow> pystr \<Rightarrow> pystr" where
  "re_sub_word ic lit rep s = sub_scan ic lit rep None 0 s"

text \<open>
  \<open>re.search(r"\b(a1|a2|...)\b", s) is not None\<close> for literal alternatives: the
  start positions are tried from the left, the alternatives in their order.
\<close>

fun search_scan :: "bool \<Rightarrow> pystr list \<Rightarrow> pychar option \<Rightarrow> pystr \<Rightarrow> bool" where
  "search_scan ic alts p [] = False"
| "search_scan ic alts p (c # cs) =
     (if list_ex (\<lambda>a. lit_at ic a p (c # cs)) alts then True
      else search_scan ic alts (Some c) cs)"

definition re_search_words :: "pystr list \<Rightarrow> pystr \<Rightarrow> bool" where
  "re_search_words alts s = search_scan False alts None s"

section \<open>Regex helpers of the program\<close>

definition latin_punct :: "char \<Rightarrow> bool" where
  "latin_punct c = (c \<in> set ''.!?,;:'')"

primrec is_punct :: "pychar \<Rightarrow> bool" where
  "is_punct (Latin c) = latin_punct c"
| "is_punct Upsilon_Hook = False"

text \<open>\<open>re.sub(r"\s+", " ", s)\<close>: every maximal run of whitespace becomes one space.\<close>

function collapse_ws :: "pystr \<Rightarrow> pystr" where
  "collapse_ws [] = []"
| "collapse_ws (c # cs) =
     (if py_isspace c then Latin CHR '' '' # collapse_ws (dropWhile py_isspace cs)
      else c # collapse_ws cs)"
  by pat_completeness auto
termination
  by (relation "measure length") (auto simp: le_imp_less_Suc length_dropWhile_le)

definition normalize_spaces :: "pystr \<Rightarrow> pystr" where
  "normalize_spaces s = py_strip (collapse_ws s)"

text \<open>
  \<open>PUNCT_RE.sub(r" \\1 ", text)\<close>. The replacement is the raw string of the five
  characters space, backslash, backslash, \<open>1\<close>, space. In a replacement template a
  doubled backslash is one literal backslash, so no group is referred to: every
  punctuation mark is replaced by the four characters space, backslash, \<open>1\<close>, space.
\<close>

definition punct_template :: pystr where
  "punct_template = str [CHR '' '', CHR 0x5C, CHR ''1'', CHR '' '']"

definition punct_sub :: "pystr \<Rightarrow> pystr" where
  "punct_sub text = concat (map (\<lambda>c. if is_punct c then punct_template else [c]) text)"

definition tokenize :: "pystr \<Rightarrow> pystr list" where
  "tokenize text = filter (\<lambda>p. py_strip p \<noteq> []) (py_split (punct_sub text))"

text \<open>
  \<open>WORD_RE.match(tok) is not None\<close> for \<open>^[a-zA-Z']+$\<close>; \<open>$\<close> also matches before
  a newline that ends the string.
\<close>

definition latin_word_class :: "char \<Rightarrow> bool" where
  "latin_word_class c = (let n = code c in
     (97 \<le> n \<and> n \<le> 122) \<or> (65 \<le> n \<and> n \<le> 90) \<or> n = 39)"

primrec word_class :: "pychar \<Rightarrow> bool" where
  "word_class (Latin c) = latin_word_class c"
| "word_class Upsilon_Hook = False"

definition is_word :: "pystr \<Rightarrow> bool" where
  "is_word tok =
     (let body = (if tok \<noteq> [] \<and> last tok = Latin CHR 0x0A then butlast tok else tok)
      in body \<noteq> [] \<and> list_all word_class body)"

definition english_plural_to_singular :: "pystr \<Rightarrow> pystr" where
  "english_plural_to_singular word =
     (if py_endswith word (str ''ies'') \<and> length word > 3
        then take (length word - 3) word @ str ''y''
      else if py_endswith word (str ''s'') \<and> length word > 3 \<and> \<not> py_endswith word (str ''ss'')
        then butlast word
      else word)"

section \<open>Dictionaries\<close>

text \<open>
  A Python \<open>dict\<close> keeps its keys in the order of their first insertion, and the
  program iterates over the keys, so a dictionary is an association list in that order.
  \<open>d[k] = v\<close> keeps the place of a key that is already there.
\<close>

type_synonym dict = "(pystr \<times> pystr) list"

fun dict_set :: "dict \<Rightarrow> pystr \<Rightarrow> pystr \<Rightarrow> dict" where
  "dict_set [] k v = [(k, v)]"
| "dict_set ((k', v') # d) k v = (if k' = k then (k, v) # d else (k', v') # dict_set d k v)"

definition dict_has :: "dict \<Rightarrow> pystr \<Rightarrow> bool" where
  "dict_has d k = (map_of d k \<noteq> None)"

definition dict_get :: "dict \<Rightarrow> pystr \<Rightarrow> pystr \<Rightarrow> pystr" where
  "dict_get d k dflt = (case map_of d k of None \<Rightarrow> dflt | Some v \<Rightarrow> v)"

definition dict_keys :: "dict \<Rightarrow> pystr list" where
  "dict_keys d = map fst d"

section \<open>Phrase rules\<close>

text \<open>
  Each pattern of \<open>PHRASES\<close> is \<open>\b\<close>, a literal phrase, \<open>\b\<close>; the list
  holds the literal phrase and the replacement.
\<close>

definition PHRASES :: "(pystr \<times> pystr) list" where
  "PHRASES =
    [(str ''thanks a lot'', str ''chala thanks''), (str ''thank you'', str ''chala thanks''),
     (str ''thank u'', str ''chala thanks''), (str ''thanks'', str ''thanks''),
     (str ''good morning'', str ''good morning''), (str ''good night'', str ''good night''),
     (str ''i love you'', str ''nenu ninnu premistunna''),
     (str ''i miss you'', str ''nenu ninnu miss avtunna''),
     (str ''what are you doing'', str ''em chestunnav''), (str ''what is this'', str ''idi enti''),
     (str ''how are you'', str ''ela unnav''), (str ''i am fine'', str ''bagunna''),
     (str ''i am sorry'', str ''sorry ra''), (str ''excuse me'', str ''excuse me''),
     (str ''please'', str ''please'')]"

definition apply_phrase_rules :: "pystr \<Rightarrow> pystr" where
  "apply_phrase_rules text =
     fold (\<lambda>(pat, rep) t. re_sub_word True pat rep t) PHRASES (py_lower text)"

section \<open>The built-in dictionary\<close>

definition base :: dict where
  "base =
    [(str ''i'', str ''nenu''), (str ''me'', str ''nannu''), (str ''my'', str ''naa''), (str ''mine'', str ''naadi''),
     (str ''you'', str ''nuvvu''), (str ''your'', str ''nee''), (str ''yours'', str ''needi''),
     (str ''he'', str ''vaadu''), (str ''him'', str ''vaadini''), (str ''his'', str ''vaadi''),
     (str ''she'', str ''aame''), (str ''her'', str ''aameni''), (str ''hers'', str ''aame di''),
     (str ''we'', str ''manam''), (str ''us'', str ''manalni''), (str ''our'', str ''maa''),
     (str ''they'', str ''vaallu''), (str ''them'', str ''vaallani''), (str ''their'', str ''vaalla''),
     (str ''am'', str ''unna''), (str ''is'', str ''undi''), (str ''are'', str ''unnaru''), (str ''was'', str ''unde''),
     (str ''were'', str ''unnaru''), (str ''be'', str ''undu''), (str ''and'', str ''inka''), (str ''but'', str ''kani''),
     (str ''because'', str ''endukante''), (str ''so'', str ''andukani''), (str ''then'', str ''appudu''),
     (str ''to'', str ''ki''), (str ''in'', str ''lo''), (str ''with'', str ''tho''), (str ''on'', str ''meeda''),
     (str ''at'', str ''daggara''), (str ''from'', str ''nundi''), (str ''for'', str ''kosam''),
     (str ''about'', str ''gurinchi''), (str ''before'', str ''mundhu''), (str ''after'', str ''tarvata''),
     (str ''go'', str ''ellu''), (str ''come'', str ''ra''), (str ''do'', str ''chey''), (str ''eat'', str ''tinu''),
     (str ''drink'', str ''taagu''), (str ''sleep'', str ''nidra''), (str ''work'', str ''pani''),
     (str ''study'', str ''chaduvu''), (str ''wait'', str ''agu''), (str ''stop'', str ''aapu''),
     (str ''start'', str ''start''), (str ''see'', str ''choodu''), (str ''watch'', str ''choodu''),
     (str ''look'', str ''choodu''), (str ''say'', str ''cheppu''), (str ''tell'', str ''cheppu''),
     (str ''give'', str ''ivvu''), (str ''take'', str ''teesko''), (str ''help'', str ''help''),
     (str ''what'', str ''em''), (str ''why'', str ''enduku''), (str ''how'', str ''ela''),
     (str ''where'', str ''ekkada''), (str ''when'', str ''eppudu''), (str ''who'', str ''evaru''),
     (str ''which'', str ''edi''), (str ''now'', str ''ippudu''), (str ''today'', str ''ivala''),
     (str ''tomorrow'', str ''repu''), (str ''yesterday'', str ''ninna''), (str ''later'', str ''tarvata''),
     (str ''always'', str ''eppudu''), (str ''never'', str ''eppudu kaadu''), (str ''good'', str ''bagundi''),
     (str ''bad'', str ''baaledu''), (str ''fine'', str ''bagundi''), (str ''very'', str ''chala''),
     (str ''ok'', str ''sare''), (str ''okay'', str ''sare''), (str ''yes'', str ''avunu''), (str ''no'', str ''ledu''),
     (str ''bro'', str ''bro''), (str ''dude'', str ''bro''), (str ''friend'', str ''friend''),
     (str ''thanks'', str ''thanks''), (str ''sorry'', str ''sorry''), (str ''please'', str ''please''),
     (str ''hello'', str ''hello''), (str ''hi'', str ''hi''), (str ''bye'', str ''bye''), (str ''late'', str ''late''),
     (str ''fast'', str ''fast''), (str ''slow'', str ''slow'')]"

definition fixed_phrases :: dict where
  "fixed_phrases =
    [(str ''i am'', str ''nenu unna''), (str ''i'm'', str ''nenu''), (str ''you are'', str ''nuvvu''),
     (str ''you're'', str ''nuvvu''), (str ''what are you doing'', str ''em chestunnav''),
     (str ''what are u doing'', str ''em chestunnav''), (str ''how are you'', str ''ela unnav'')]"

definition keep_nouns :: "pystr list" where
  "keep_nouns =
    [str ''office'', str ''meeting'', str ''college'', str ''class'', str ''project'', str ''assignment'',
     str ''deadline'', str ''phone'', str ''mobile'', str ''laptop'', str ''wifi'', str ''internet'', str ''email'',
     str ''app'', str ''gym'', str ''workout'', str ''diet'', str ''protein'', str ''training'', str ''practice'',
     str ''youtube'', str ''instagram'', str ''whatsapp'', str ''google'', str ''bus'', str ''train'', str ''bike'',
     str ''car'', str ''home'', str ''room'', str ''food'', str ''water'', str ''money'', str ''time'', str ''gate'',
     str ''iit'', str ''eldermate'', str ''raspberry'', str ''pi'']"

record verb_forms =
  v1 :: pystr
  ing :: pystr
  ed :: pystr
  will :: pystr

definition verb_bank :: "(pystr \<times> verb_forms) list" where
  "verb_bank =
    [(str ''go'', \<lparr>v1 = str ''ellu'', ing = str ''veltunna'', ed = str ''vellaa'', will = str ''velta''\<rparr>),
     (str ''come'', \<lparr>v1 = str ''ra'', ing = str ''vastunna'', ed = str ''vachaa'', will = str ''vasta''\<rparr>),
     (str ''do'', \<lparr>v1 = str ''chey'', ing = str ''chestunna'', ed = str ''chesaa'', will = str ''chestaa''\<rparr>),
     (str ''eat'', \<lparr>v1 = str ''tinu'', ing = str ''tintunna'', ed = str ''tinna'', will = str ''tintaa''\<rparr>),
     (str ''drink'', \<lparr>v1 = str ''taagu'', ing = str ''taagutunna'', ed = str ''taaga'', will = str ''taagtaa''\<rparr>),
     (str ''sleep'', \<lparr>v1 = str ''nidra'', ing = str ''nidra potunna'', ed = str ''nidra poya'', will = str ''nidra potaa''\<rparr>),
     (str ''study'', \<lparr>v1 = str ''chaduvu'', ing = str ''chaduvutunna'', ed = str ''chadivaa'', will = str ''chaduvutaa''\<rparr>),
     (str ''work'', \<lparr>v1 = str ''pani'', ing = str ''panichestunna'', ed = str ''pani chesaa'', will = str ''panichestaa''\<rparr>),
     (str ''wait'', \<lparr>v1 = str ''agu'', ing = str ''agutunna'', ed = str ''agaa'', will = str ''aguta''\<rparr>),
     (str ''stop'', \<lparr>v1 = str ''aapu'', ing = str ''aapestunna'', ed = str ''aapesaa'', will = str ''aapestaa''\<rparr>),
     (str ''see'', \<lparr>v1 = str ''choodu'', ing = str ''chustunna'', ed = str ''chusaa'', will = str ''chustaa''\<rparr>),
     (str ''watch'', \<lparr>v1 = str ''choodu'', ing = str ''chustunna'', ed = str ''chusaa'', will = str ''chustaa''\<rparr>),
     (str ''tell'', \<lparr>v1 = str ''cheppu'', ing = str ''cheptunna'', ed = str ''cheppaa'', will = str ''cheptaa''\<rparr>),
     (str ''say'', \<lparr>v1 = str ''cheppu'', ing = str ''cheptunna'', ed = str ''cheppaa'', will = str ''cheptaa''\<rparr>),
     (str ''give'', \<lparr>v1 = str ''ivvu'', ing = str ''istunna'', ed = str ''ichaa'', will = str ''istaa''\<rparr>),
     (str ''take'', \<lparr>v1 = str ''teesko'', ing = str ''teesukuntunna'', ed = str ''teeskunna'', will = str ''teeskuntaa''\<rparr>),
     (str ''help'', \<lparr>v1 = str ''help'', ing = str ''help chestunna'', ed = str ''help chesaa'', will = str ''help chestaa''\<rparr>)]"

text \<open>The irregular past forms: the \<open>if v == "go" ... elif\<close> chain of the builder.\<close>

definition irregular_past :: "pystr \<Rightarrow> pystr option" where
  "irregular_past v =
     (if v = str ''go'' then Some (str ''went'')
      else if v = str ''eat'' then Some (str ''ate'')
      else if v = str ''drink'' then Some (str ''drank'')
      else if v = str ''sleep'' then Some (str ''slept'')
      else if v = str ''take'' then Some (str ''took'')
      else if v = str ''come'' then Some (str ''came'')
      else if v = str ''do'' then Some (str ''did'')
      else None)"

text \<open>One round of the loop over \<open>verb_bank\<close>, assignment by assignment.\<close>

definition add_verb :: "pystr \<times> verb_forms \<Rightarrow> dict \<Rightarrow> dict" where
  "add_verb vf final0 =
     (let v = fst vf; forms = snd vf;
          final1 = dict_set final0 v (v1 forms);
          final2 = dict_set final1 (v @ str ''ing'') (ing forms);
          final3 = (if py_endswith v (str ''e'') then dict_set final2 (butlast v @ str ''ing'') (ing forms)
                    else dict_set final2 (v @ str ''ing'') (ing forms));
          final4 = dict_set final3 (v @ str ''ed'') (ed forms);
          final5 = (case irregular_past v of
                      Some past \<Rightarrow> dict_set final4 past (ed forms)
                    | None \<Rightarrow> final4);
          final6 = dict_set final5 (str ''will '' @ v) (will forms);
          final7 = dict_set final6 (str ''can '' @ v) (v1 forms @ str '' galanu'');
          final8 = dict_set final7 (str ''cannot '' @ v) (v1 forms @ str '' ledu'');
          final9 = dict_set final8 (str ''can't '' @ v) (v1 forms @ str '' ledu'');
          final10 = dict_set final9 (str ''want to '' @ v) (v1 forms @ str '' kavali'');
          final11 = dict_set final10 (str ''need to '' @ v) (v1 forms @ str '' kavali'');
          final12 = dict_set final11 (str ''have to '' @ v) (v1 forms @ str '' kavali'');
          final13 = dict_set final12 (str ''must '' @ v) (v1 forms @ str '' tappadu'')
      in dict_set final13 (str ''please '' @ v) (str ''please '' @ v1 forms))"

definition build_tenglish_dictionary :: dict where
  "build_tenglish_dictionary =
     (let final0 = base;
          final1 = fold (\<lambda>(k, v) final. dict_set final k v) fixed_phrases final0;
          final2 = fold (\<lambda>n final. dict_set final n n) keep_nouns final1
      in fold add_verb verb_bank final2)"

definition KEEP_ENGLISH_DEFAULT :: "pystr set" where
  "KEEP_ENGLISH_DEFAULT = set
    [str ''wifi'', str ''internet'', str ''phone'', str ''mobile'', str ''laptop'', str ''app'', str ''email'',
     str ''office'', str ''meeting'', str ''project'', str ''assignment'', str ''deadline'', str ''class'',
     str ''college'', str ''gym'', str ''workout'', str ''diet'', str ''protein'', str ''training'', str ''practice'',
     str ''youtube'', str ''instagram'', str ''whatsapp'', str ''google'', str ''bus'', str ''train'', str ''bike'',
     str ''car'', str ''gate'', str ''iit'', str ''eldermate'', str ''raspberry'', str ''pi'', str ''camera'',
     str ''robot'']"

definition glue_set :: "pystr set" where
  "glue_set = set
    [str ''i'', str ''you'', str ''me'', str ''my'', str ''your'', str ''is'', str ''am'', str ''are'', str ''was'', str ''were'',
     str ''no'', str ''yes'', str ''now'', str ''today'', str ''tomorrow'', str ''yesterday'', str ''what'', str ''why'',
     str ''how'', str ''where'', str ''when'', str ''who'', str ''and'', str ''but'', str ''because'', str ''so'',
     str ''then'', str ''please'', str ''sorry'', str ''very'', str ''to'', str ''in'', str ''with'', str ''on'', str ''at'',
     str ''from'', str ''for'', str ''about'', str ''before'', str ''after'']"

section \<open>The converter\<close>

definition to_title_like :: "pystr \<Rightarrow> pystr \<Rightarrow> pystr" where
  "to_title_like original converted =
     (case original of
        [] \<Rightarrow> converted
      | o1 # _ \<Rightarrow>
          (case converted of
             [] \<Rightarrow> converted
           | c # cs \<Rightarrow> if py_isupper o1 then upper_char c @ cs else converted))"

text \<open>The body of the loop over the tokens: what is appended to \<open>out\<close> for one token.\<close>

definition translate_token :: "int \<Rightarrow> bool \<Rightarrow> dict \<Rightarrow> pystr set \<Rightarrow> pystr \<Rightarrow> pystr" where
  "translate_token telugu_strength keep_english_nouns word_dict keep_english_set tok =
     (if \<not> is_word tok then tok
      else
        let orig = tok;
            w = py_lower tok;
            w_s = english_plural_to_singular w
        in if keep_english_nouns \<and> (w \<in> keep_english_set \<or> w_s \<in> keep_english_set) then w
           else
             let in_dict = (dict_has word_dict w \<or> dict_has word_dict w_s)
             in if in_dict then
                  let translate =
                        (if telugu_strength \<ge> 35 then True else (w \<in> glue_set \<or> w_s \<in> glue_set))
                  in if translate
                     then to_title_like orig (dict_get word_dict w (dict_get word_dict w_s w))
                     else w
                else w)"

text \<open>
  \<open>sorted([k for k in word_dict.keys() if " " in k], key=len, reverse=True)\<close>:
  Python's sort is stable, also with \<open>reverse=True\<close>, so keys of one length keep the
  order of the dictionary.
\<close>

definition multiword_keys :: "dict \<Rightarrow> pystr list" where
  "multiword_keys word_dict =
     sort_key (\<lambda>k. - int (length k)) (filter (\<lambda>k. Latin CHR '' '' \<in> set k) (dict_keys word_dict))"

text \<open>
  The loop over these keys; \<open>word_dict[k]\<close> is the replacement (the key is there, so
  the default of \<open>dict_get\<close> is never taken). \<open>re.sub\<close> reads the replacement as a
  template: without a backslash it is inserted as it is, with one it is rewritten or
  refused with \<open>re.error\<close>. The model inserts the replacement as it is, so it is the
  code for the dictionaries whose values at the multiword keys hold no backslash, the
  dictionaries of \<open>plain_templates\<close>; the dictionary of the builder is one.
\<close>

definition plain_templates :: "dict \<Rightarrow> bool" where
  "plain_templates word_dict =
     list_all (\<lambda>k. Latin CHR 0x5C \<notin> set (dict_get word_dict k [])) (multiword_keys word_dict)"

definition multiword_replacements :: "dict \<Rightarrow> pystr \<Rightarrow> pystr" where
  "multiword_replacements word_dict result =
     fold (\<lambda>k r. re_sub_word True k (dict_get word_dict k []) r) (multiword_keys word_dict) result"

definition postposition_styling :: "pystr \<Rightarrow> pystr" where
  "postposition_styling result =
     (let r1 = re_sub_word False (str ''to'') (str ''ki'') result;
          r2 = re_sub_word False (str ''in'') (str ''lo'') r1
      in re_sub_word False (str ''with'') (str ''tho'') r2)"

definition telangana_slang :: "pystr \<Rightarrow> pystr" where
  "telangana_slang result =
     (if Latin CHR ''?'' \<in> set result then
        (if \<not> re_search_words [str ''ra'', str ''rey'', str ''bro''] result
         then py_replace result (str ''?'') (str '' ra?'')
         else result)
      else
        (if length (py_split result) \<le> 7 \<and> \<not> re_search_words [str ''ra'', str ''rey''] result
         then result @ str '' ra''
         else result))"

text \<open>
  \<open>re.search(r"[a-zA-Z']\s*$", result)\<close>: a letter or an apostrophe with only
  whitespace after it, that is, the last character that is not whitespace.
\<close>

definition ends_in_letter :: "pystr \<Rightarrow> bool" where
  "ends_in_letter result =
     (case rev (py_rstrip result) of [] \<Rightarrow> False | c # _ \<Rightarrow> word_class c)"

definition polite_ending :: "pystr \<Rightarrow> pystr" where
  "polite_ending result =
     (if ends_in_letter result then py_strip result @ str '' andi'' else result)"

text \<open>
  \<open>re.sub(r"\s+([.!?,;:])", r"\1", result)\<close>: a maximal run of whitespace followed
  by a punctuation mark is replaced by the mark; the scan goes on after the mark.
\<close>

function space_before_punct :: "pystr \<Rightarrow> pystr" where
  "space_before_punct [] = []"
| "space_before_punct (c # cs) =
     (let r = dropWhile py_isspace cs
      in if py_isspace c \<and> r \<noteq> [] \<and> is_punct (hd r)
         then hd r # space_before_punct (tl r)
         else c # space_before_punct cs)"
  by pat_completeness auto
termination
  by (relation "measure length")
     (auto simp: le_imp_less_Suc length_dropWhile_le less_Suc_eq_le
           intro: le_trans [OF diff_le_self length_dropWhile_le])

definition clean_punctuation :: "pystr \<Rightarrow> pystr" where
  "clean_punctuation result = normalize_spaces (space_before_punct result)"

text \<open>
  The body of \<open>convert_to_tenglish\<close> after the early return, in three parts: the
  value of \<open>result\<close> after the loop over the tokens and the multiword replacements,
  its value after the three optional styling steps, and the cleaning of the spacing.
\<close>

definition translated_result :: "pystr \<Rightarrow> int \<Rightarrow> bool \<Rightarrow> dict \<Rightarrow> pystr set \<Rightarrow> pystr" where
  "translated_result text telugu_strength keep_english_nouns word_dict keep_english_set =
     (let t = apply_phrase_rules text;
          tokens = tokenize t;
          out = map (translate_token telugu_strength keep_english_nouns word_dict
                       keep_english_set) tokens;
          result = py_join (str '' '') out
      in multiword_replacements word_dict result)"

definition styled_result :: "bool \<Rightarrow> bool \<Rightarrow> bool \<Rightarrow> pystr \<Rightarrow> pystr" where
  "styled_result polite_mode add_postpositions add_telangana_slang result =
     (let result1 = (if add_postpositions then postposition_styling result else result);
          result2 = (if add_telangana_slang then telangana_slang result1 else result1)
      in if polite_mode then polite_ending result2 else result2)"

definition convert_to_tenglish ::
  "pystr \<Rightarrow> int \<Rightarrow> bool \<Rightarrow> bool \<Rightarrow> bool \<Rightarrow> bool \<Rightarrow> dict \<Rightarrow> pystr set \<Rightarrow> pystr" where
  "convert_to_tenglish text telugu_strength keep_english_nouns polite_mode add_postpositions
       add_telangana_slang word_dict keep_english_set =
     (if py_strip text = [] then []
      else clean_punctuation
             (styled_result polite_mode add_postpositions add_telangana_slang
                (translated_result text telugu_strength keep_english_nouns word_dict
                   keep_english_set)))"

section \<open>Notions of the specification\<close>

text \<open>
  The segments of a string: its maximal runs of \<open>\w\<close> characters, and each other
  character on its own. A standalone word of a string is a segment that is such a run.
\<close>

function word_segments :: "pystr \<Rightarrow> pystr list" where
  "word_segments [] = []"
| "word_segments (c # cs) =
     (if re_word_char c
      then (c # takeWhile re_word_char cs) # word_segments (dropWhile re_word_char cs)
      else [c] # word_segments cs)"
  by pat_completeness auto
termination
  by (relation "measure length") (auto simp: le_imp_less_Suc length_dropWhile_le)

text \<open>
  A list of strings that is the list of the segments of a string: each is a run of
  \<open>\w\<close> characters or one other character, and no two runs are neighbours.
\<close>

abbreviation wordy :: "pystr \<Rightarrow> bool" where
  "wordy s \<equiv> s \<noteq> [] \<and> list_all re_word_char s"

definition other_seg :: "pystr \<Rightarrow> bool" where
  "other_seg x = (case x of [c] \<Rightarrow> \<not> re_word_char c | _ \<Rightarrow> False)"

primrec segmented :: "pystr list \<Rightarrow> bool" where
  "segmented [] = True"
| "segmented (x # xs) =
     (((wordy x \<and> (case xs of [] \<Rightarrow> True | y # _ \<Rightarrow> other_seg y)) \<or> other_seg x)
      \<and> segmented xs)"

text \<open>What the postposition styling is to do with one segment.\<close>

definition postposition_word :: "pystr \<Rightarrow> pystr" where
  "postposition_word seg =
     (if seg = str ''to'' then str ''ki''
      else if seg = str ''in'' then str ''lo''
      else if seg = str ''with'' then str ''tho''
      else seg)"

text \<open>Inserting \<open>ra\<close> and a space before it in front of every question mark.\<close>

definition ra_before_question :: "pystr \<Rightarrow> pystr" where
  "ra_before_question s = concat (map (\<lambda>c. if c = Latin CHR ''?'' then str '' ra?'' else [c]) s)"

section \<open>The dictionary as a list of assignments\<close>

text \<open>
  The assignments \<open>final[k] = v\<close> of one round of the loop over \<open>verb_bank\<close>, and all
  assignments of the builder, in the order in which they are made.
\<close>

definition verb_entries :: "pystr \<times> verb_forms \<Rightarrow> (pystr \<times> pystr) list" where
  "verb_entries vf =
     (let v = fst vf; forms = snd vf in
      [(v, v1 forms),
       (v @ str ''ing'', ing forms),
       (if py_endswith v (str ''e'') then (butlast v @ str ''ing'', ing forms) else (v @ str ''ing'', ing forms)),
       (v @ str ''ed'', ed forms)]
      @ (case irregular_past v of Some past \<Rightarrow> [(past, ed forms)] | None \<Rightarrow> [])
      @ [(str ''will '' @ v, will forms),
         (str ''can '' @ v, v1 forms @ str '' galanu''),
         (str ''cannot '' @ v, v1 forms @ str '' ledu''),
         (str ''can't '' @ v, v1 forms @ str '' ledu''),
         (str ''want to '' @ v, v1 forms @ str '' kavali''),
         (str ''need to '' @ v, v1 forms @ str '' kavali''),
         (str ''have to '' @ v, v1 forms @ str '' kavali''),
         (str ''must '' @ v, v1 forms @ str '' tappadu''),
         (str ''please '' @ v, str ''please '' @ v1 forms)])"

definition all_entries :: "(pystr \<times> pystr) list" where
  "all_entries =
     base @ fixed_phrases @ map (\<lambda>n. (n, n)) keep_nouns @ concat (map verb_entries verb_bank)"

text \<open>The value last assigned to a key in a list of assignments.\<close>

fun last_assigned :: "(pystr \<times> pystr) list \<Rightarrow> pystr \<Rightarrow> pystr option" where
  "last_assigned [] k = None"
| "last_assigned (kv # es) k =
     (case last_assigned es k of
        Some v \<Rightarrow> Some v
      | None \<Rightarrow> if fst kv = k then Some (snd kv) else None)"

text \<open>
  The same for the assignments of the rounds of the loop over the verbs, round by round.
\<close>

fun lookup_verbs :: "(pystr \<times> verb_forms) list \<Rightarrow> pystr \<Rightarrow> pystr option" where
  "lookup_verbs [] k = None"
| "lookup_verbs (vf # vfs) k =
     (case lookup_verbs vfs k of
        Some v \<Rightarrow> Some v
      | None \<Rightarrow> last_assigned (verb_entries vf) k)"

text \<open>A key that holds a space and matches nowhere in a string, or a key without a space.\<close>

definition no_hit :: "pystr \<Rightarrow> pystr \<Rightarrow> bool" where
  "no_hit k r = (if Latin CHR '' '' \<in> set k then \<not> search_scan True [k] None r else True)"

text \<open>The letters among the 32 characters that share their three upper bits.\<close>

definition letter_bits :: "bool \<Rightarrow> bool \<Rightarrow> bool \<Rightarrow> bool \<Rightarrow> bool \<Rightarrow> bool" where
  "letter_bits b0 b1 b2 b3 b4 =
     ((b0 \<or> b1 \<or> b2 \<or> b3 \<or> b4) \<and> \<not> (b3 \<and> b4 \<and> (b2 \<or> (b0 \<and> b1))))"

abbreviation assign :: "pystr \<times> pystr \<Rightarrow> dict \<Rightarrow> dict" where
  "assign kv d \<equiv> dict_set d (fst kv) (snd kv)"

abbreviation no_upper :: "pystr \<Rightarrow> bool" where
  "no_upper s \<equiv> list_all (\<lambda>c. \<not> py_isupper c) s"

text \<open>
  What \<open>str.lower\<close> returns: a string whose upper case letters, if any, are among
  those that have no lower case form.
\<close>

abbreviation lowered :: "pystr \<Rightarrow> bool" where
  "lowered s \<equiv> list_all (\<lambda>c. c = Upsilon_Hook \<or> \<not> py_isupper c) s"

section \<open>Properties\<close>

subsection \<open>The early return\<close>

lemma py_strip_blank:
  assumes "\<forall>c \<in> set s. py_isspace c"
  shows "py_strip s = []"
proof -
  from assms have d: "dropWhile py_isspace s = []"
    by (induction s) simp_all
  show ?thesis
    unfolding py_strip_def py_lstrip_def py_rstrip_def d by simp
qed

lemma isspace_space: "latin_isspace CHR '' ''"
  by (simp add: latin_isspace_def code_def)

text \<open>
  Claim C8. For every configuration, dictionary and keep-English set, the conversion of
  a text that consists of whitespace only, the empty text included, is the empty
  string: the early return of \<open>convert_to_tenglish\<close>.
\<close>

theorem C8_blank_input:
  assumes "\<forall>c \<in> set text. py_isspace c"
  shows "convert_to_tenglish text s k p a sl d ks = []"
  using py_strip_blank [OF assms] by (simp add: convert_to_tenglish_def)

theorem C8_blank_input_witness:
  "convert_to_tenglish [] 65 True False True False build_tenglish_dictionary
     KEEP_ENGLISH_DEFAULT = []
   \<and> convert_to_tenglish (str ''  '') 0 False True False True build_tenglish_dictionary {} = []"
  using C8_blank_input [of "[]"] C8_blank_input [of "str ''  ''"]
  by (simp add: isspace_space)

subsection \<open>The two lists of English nouns\<close>

lemma keep_nouns_only:
  "filter (\<lambda>x. x \<notin> KEEP_ENGLISH_DEFAULT) keep_nouns =
     [str ''home'', str ''room'', str ''food'', str ''water'', str ''money'', str ''time'']"
  unfolding KEEP_ENGLISH_DEFAULT_def keep_nouns_def by simp

lemma keep_default_only:
  "KEEP_ENGLISH_DEFAULT - set keep_nouns = {str ''camera'', str ''robot''}"
proof -
  have "KEEP_ENGLISH_DEFAULT - set keep_nouns =
      set (filter (\<lambda>x. x \<notin> set keep_nouns)
        [str ''wifi'', str ''internet'', str ''phone'', str ''mobile'', str ''laptop'', str ''app'', str ''email'',
         str ''office'', str ''meeting'', str ''project'', str ''assignment'', str ''deadline'', str ''class'',
         str ''college'', str ''gym'', str ''workout'', str ''diet'', str ''protein'', str ''training'',
         str ''practice'', str ''youtube'', str ''instagram'', str ''whatsapp'', str ''google'', str ''bus'',
         str ''train'', str ''bike'', str ''car'', str ''gate'', str ''iit'', str ''eldermate'', str ''raspberry'',
         str ''pi'', str ''camera'', str ''robot''])"
    unfolding KEEP_ENGLISH_DEFAULT_def set_filter by blast
  also have "\<dots> = {str ''camera'', str ''robot''}"
    unfolding keep_nouns_def by simp
  finally show ?thesis .
qed

text \<open>
  Claim C5, as the code has it. The nouns that the builder maps to themselves and the
  default keep-English set share 33 words and differ in eight: \<open>home\<close>, \<open>room\<close>,
  \<open>food\<close>, \<open>water\<close>, \<open>money\<close> and \<open>time\<close> are only in the builder's list,
  \<open>camera\<close> and \<open>robot\<close> only in the default keep-English set.
\<close>

theorem C5_keep_lists:
  "set keep_nouns - KEEP_ENGLISH_DEFAULT =
     {str ''home'', str ''room'', str ''food'', str ''water'', str ''money'', str ''time''}
   \<and> KEEP_ENGLISH_DEFAULT - set keep_nouns = {str ''camera'', str ''robot''}"
proof -
  have "set keep_nouns - KEEP_ENGLISH_DEFAULT =
      set (filter (\<lambda>x. x \<notin> KEEP_ENGLISH_DEFAULT) keep_nouns)"
    unfolding set_filter by blast
  then show ?thesis
    unfolding keep_nouns_only keep_default_only by simp
qed

text \<open>The claim as the specification states it fails: the two sets are not equal.\<close>

theorem C5_keep_lists_counterexample:
  "set keep_nouns \<noteq> KEEP_ENGLISH_DEFAULT"
proof
  assume "set keep_nouns = KEEP_ENGLISH_DEFAULT"
  then have "filter (\<lambda>x. x \<notin> KEEP_ENGLISH_DEFAULT) keep_nouns = []"
    by (simp add: filter_empty_conv)
  then show False
    unfolding keep_nouns_only by simp
qed

subsection \<open>Characters that the steps of the conversion keep out\<close>

text \<open>
  Each step of the conversion builds its result from characters of its argument and of
  constant strings, so a property of characters that holds of both holds of the result.
\<close>

lemma sub_scan_all:
  "list_all P s \<Longrightarrow> list_all P rep \<Longrightarrow> list_all P (sub_scan ic lit rep p k s)"
  by (induction ic lit rep p k s rule: sub_scan.induct) simp_all

lemma re_sub_word_all:
  "list_all P s \<Longrightarrow> list_all P rep \<Longrightarrow> list_all P (re_sub_word ic lit rep s)"
  by (simp add: re_sub_word_def sub_scan_all)

lemma replace_scan_all:
  "list_all P s \<Longrightarrow> list_all P new \<Longrightarrow> list_all P (replace_scan old new k s)"
  by (induction old new k s rule: replace_scan.induct) simp_all

lemma list_all_takeWhile: "list_all P s \<Longrightarrow> list_all P (takeWhile Q s)"
  by (induction s) simp_all

lemma list_all_dropWhile: "list_all P s \<Longrightarrow> list_all P (dropWhile Q s)"
  by (induction s) simp_all

lemma list_all_tl: "list_all P s \<Longrightarrow> list_all P (tl s)"
  by (cases s) simp_all

lemma list_all_hd: "list_all P s \<Longrightarrow> s \<noteq> [] \<Longrightarrow> P (hd s)"
  by (cases s) simp_all

lemma py_split_all: "list_all P s \<Longrightarrow> list_all (list_all P) (py_split s)"
  by (induction s rule: py_split.induct) (simp_all add: list_all_takeWhile list_all_dropWhile)

lemma collapse_ws_all: "list_all P s \<Longrightarrow> P (Latin CHR '' '') \<Longrightarrow> list_all P (collapse_ws s)"
  by (induction s rule: collapse_ws.induct) (simp_all add: list_all_dropWhile)

lemma space_before_punct_all: "list_all P s \<Longrightarrow> list_all P (space_before_punct s)"
  by (induction s rule: space_before_punct.induct)
     (simp_all add: Let_def list_all_dropWhile list_all_tl list_all_hd)

lemma py_strip_all: "list_all P s \<Longrightarrow> list_all P (py_strip s)"
  by (simp add: py_strip_def py_lstrip_def py_rstrip_def list_all_dropWhile)

lemma py_join_all:
  "list_all (list_all P) xs \<Longrightarrow> list_all P sep \<Longrightarrow> list_all P (py_join sep xs)"
  by (induction sep xs rule: py_join.induct) simp_all

lemma clean_punctuation_all:
  "list_all P s \<Longrightarrow> P (Latin CHR '' '') \<Longrightarrow> list_all P (clean_punctuation s)"
  by (simp add: clean_punctuation_def normalize_spaces_def py_strip_all collapse_ws_all
        space_before_punct_all)

lemma fold_sub_all:
  "list_all P s \<Longrightarrow> list_all (\<lambda>kv. list_all P (snd kv)) prs \<Longrightarrow>
   list_all P (fold (\<lambda>kv t. re_sub_word ic (fst kv) (snd kv) t) prs s)"
  by (induction prs arbitrary: s) (simp_all add: re_sub_word_all)

lemma postposition_styling_all:
  "list_all P s \<Longrightarrow> list_all P (str ''kilotho'') \<Longrightarrow> list_all P (postposition_styling s)"
  by (simp add: postposition_styling_def Let_def re_sub_word_all)

lemma telangana_slang_all:
  assumes "list_all P s" and "list_all P (str '' ra'')" and "Latin CHR ''?'' \<in> set s \<Longrightarrow> P (Latin CHR ''?'')"
  shows "list_all P (telangana_slang s)"
  using assms by (simp add: telangana_slang_def py_replace_def replace_scan_all)

lemma polite_ending_all:
  "list_all P s \<Longrightarrow> list_all P (str '' andi'') \<Longrightarrow> list_all P (polite_ending s)"
  by (simp add: polite_ending_def py_strip_all)

lemma styled_result_all:
  assumes "list_all P s" and "list_all P (str '' raandikloth'')"
    and "Latin CHR ''?'' \<in> set (if a then postposition_styling s else s) \<Longrightarrow> P (Latin CHR ''?'')"
  shows "list_all P (styled_result p a sl s)"
proof -
  let ?r1 = "if a then postposition_styling s else s"
  let ?r2 = "if sl then telangana_slang ?r1 else ?r1"
  from assms(1,2) have r1: "list_all P ?r1"
    by (simp add: postposition_styling_all)
  with assms(2,3) have r2: "list_all P ?r2"
    by (simp add: telangana_slang_all)
  have "list_all P (if p then polite_ending ?r2 else ?r2)"
    using r2 assms(2) by (simp add: polite_ending_all)
  then show ?thesis
    by (simp add: styled_result_def Let_def)
qed

subsection \<open>Lower case\<close>

lemma latin_lower_not_upper: "\<not> latin_isupper (latin_lower c)"
proof (cases "latin_isupper c")
  case True
  then have "code c + 32 < 256" "\<not> latin_isupper (char_of (code c + 32))"
    by (auto simp: latin_isupper_def code_def Let_def)
  then show ?thesis using True by (simp add: latin_lower_def)
next
  case False
  then show ?thesis by (simp add: latin_lower_def)
qed

lemma lower_char_upper: "lower_char c = Upsilon_Hook \<or> \<not> py_isupper (lower_char c)"
  by (cases c) (simp_all add: latin_lower_not_upper)

lemma lowered_py_lower: "lowered (py_lower s)"
  by (simp add: py_lower_def list_all_iff lower_char_upper)

lemma no_upper_lowered: "no_upper s \<Longrightarrow> lowered s"
  by (simp add: list_all_iff)

lemma lower_char_id: "\<not> py_isupper c \<Longrightarrow> lower_char c = c"
  by (cases c) (simp_all add: latin_lower_def)

lemma py_lower_id: "no_upper s \<Longrightarrow> py_lower s = s"
  by (induction s) (simp_all add: py_lower_def lower_char_id)

lemma py_lower_latin: "no_upper (py_lower (str t))"
  by (induction t) (simp_all add: py_lower_def latin_lower_not_upper)

lemma to_title_like_lower: "no_upper tok \<Longrightarrow> to_title_like tok rep = rep"
  by (cases tok; cases rep) (simp_all add: to_title_like_def)

lemma PHRASES_lower: "list_all (\<lambda>kv. no_upper (snd kv)) PHRASES"
  by (simp add: PHRASES_def latin_isupper_def code_def)

lemma PHRASES_lowered: "list_all (\<lambda>kv. lowered (snd kv)) PHRASES"
  using PHRASES_lower by (simp add: list_all_iff)

lemma apply_phrase_rules_lowered: "lowered (apply_phrase_rules s)"
  unfolding apply_phrase_rules_def case_prod_beta
  by (rule fold_sub_all [OF lowered_py_lower PHRASES_lowered])

lemma apply_phrase_rules_lower:
  "no_upper (py_lower s) \<Longrightarrow> no_upper (apply_phrase_rules s)"
  unfolding apply_phrase_rules_def case_prod_beta
  by (rule fold_sub_all [OF _ PHRASES_lower])

lemma punct_sub_all:
  "list_all P s \<Longrightarrow> list_all P punct_template \<Longrightarrow> list_all P (punct_sub s)"
  by (induction s) (simp_all add: punct_sub_def)

lemma tokenize_all:
  "list_all P s \<Longrightarrow> list_all P punct_template \<Longrightarrow> list_all (list_all P) (tokenize s)"
  using py_split_all [OF punct_sub_all, of P s]
  by (auto simp: tokenize_def list_all_iff)

lemma tokens_lowered: "list_all lowered (tokenize (apply_phrase_rules s))"
  by (rule tokenize_all [OF apply_phrase_rules_lowered])
     (simp add: punct_template_def latin_isupper_def code_def)

lemma tokens_lower:
  "no_upper (py_lower s) \<Longrightarrow> list_all no_upper (tokenize (apply_phrase_rules s))"
  by (rule tokenize_all [OF apply_phrase_rules_lower])
     (simp_all add: punct_template_def latin_isupper_def code_def)

text \<open>A word token holds letters of \<open>a-zA-Z\<close> and apostrophes only.\<close>

lemma word_class_latin: "word_class c \<Longrightarrow> c \<noteq> Upsilon_Hook"
  by (cases c) simp_all

lemma word_lower:
  assumes "is_word tok" and "lowered tok"
  shows "no_upper tok"
proof -
  have "\<not> py_isupper c" if "c \<in> set tok" for c
  proof (cases "word_class c")
    case True
    then show ?thesis
      using assms(2) that word_class_latin [of c] by (auto simp: list_all_iff)
  next
    case False
    with assms(1) that have "tok \<noteq> []" and "last tok = Latin CHR 0x0A"
      and "c \<notin> set (butlast tok)"
      by (auto simp: is_word_def Let_def list_all_iff split: if_splits)
    with that have "c = Latin CHR 0x0A"
      using append_butlast_last_id [of tok] by (metis Un_iff empty_iff empty_set set_ConsD set_append)
    then show ?thesis
      by (simp add: latin_isupper_def code_def)
  qed
  then show ?thesis
    by (simp add: list_all_iff)
qed

lemma word_tokens_lower:
  assumes "tok \<in> set (tokenize (apply_phrase_rules s))" and "is_word tok"
  shows "no_upper tok"
  using assms(2) tokens_lowered [of s] assms(1) by (intro word_lower) (simp_all add: list_all_iff)

subsection \<open>The dictionary of the builder\<close>

lemma map_of_dict_set: "map_of (dict_set d k v) x = (if x = k then Some v else map_of d x)"
  by (induction d k v rule: dict_set.induct) auto

lemma keys_dict_set: "set (dict_keys (dict_set d k v)) = insert k (set (dict_keys d))"
  by (induction d k v rule: dict_set.induct) (auto simp: dict_keys_def)

lemma distinct_dict_set: "distinct (dict_keys d) \<Longrightarrow> distinct (dict_keys (dict_set d k v))"
  using keys_dict_set [of _ k v]
  by (induction d k v rule: dict_set.induct) (auto simp: dict_keys_def)

lemma dict_set_fresh: "k \<notin> set (dict_keys d) \<Longrightarrow> dict_set d k v = d @ [(k, v)]"
  by (induction d k v rule: dict_set.induct) (auto simp: dict_keys_def)

lemma fold_assign_distinct:
  "distinct (map fst (d @ es)) \<Longrightarrow> fold assign es d = d @ es"
proof (induction es arbitrary: d)
  case Nil
  then show ?case by simp
next
  case (Cons e es)
  from Cons.prems have "fst e \<notin> set (dict_keys d)"
    by (auto simp: dict_keys_def)
  then have "dict_set d (fst e) (snd e) = d @ [e]"
    by (simp add: dict_set_fresh)
  moreover from Cons.prems have "distinct (map fst ((d @ [e]) @ es))"
    by simp
  ultimately show ?case
    using Cons.IH [of "d @ [e]"] by simp
qed

lemma map_of_fold_assign:
  "map_of (fold assign es d) x =
     (case last_assigned es x of Some v \<Rightarrow> Some v | None \<Rightarrow> map_of d x)"
  by (induction es arbitrary: d) (auto simp: map_of_dict_set split: option.split)

lemma keys_fold_assign:
  "set (dict_keys (fold assign es d)) = fst ` set es \<union> set (dict_keys d)"
  by (induction es arbitrary: d) (auto simp: keys_dict_set)

lemma distinct_fold_assign:
  "distinct (dict_keys d) \<Longrightarrow> distinct (dict_keys (fold assign es d))"
  by (induction es arbitrary: d) (simp_all add: distinct_dict_set)

lemma add_verb_entries: "add_verb vf d = fold assign (verb_entries vf) d"
  by (simp add: add_verb_def verb_entries_def Let_def split: option.split)

lemma fold_add_verb: "fold add_verb vb d = fold assign (concat (map verb_entries vb)) d"
  by (induction vb arbitrary: d) (simp_all add: add_verb_entries)

lemma base_distinct: "distinct (map fst base)"
  by (simp add: base_def)

lemma build_assignments: "build_tenglish_dictionary = fold assign all_entries []"
proof -
  have b: "fold assign base [] = base"
    using fold_assign_distinct [of "[]" base] base_distinct by simp
  have f: "(\<lambda>(k, v) final. dict_set final k v) = assign"
    by (simp add: fun_eq_iff)
  have n: "fold (\<lambda>n final. dict_set final n n) ns d = fold assign (map (\<lambda>n. (n, n)) ns) d"
    for ns d
    by (induction ns arbitrary: d) simp_all
  show ?thesis
    by (simp add: build_tenglish_dictionary_def all_entries_def Let_def f n fold_add_verb b)
qed

lemma map_of_build: "map_of build_tenglish_dictionary k = last_assigned all_entries k"
  by (simp add: build_assignments map_of_fold_assign split: option.split)

lemma keys_build: "set (dict_keys build_tenglish_dictionary) = fst ` set all_entries"
  unfolding build_assignments keys_fold_assign by (simp add: dict_keys_def)

lemma distinct_keys_build: "distinct (dict_keys build_tenglish_dictionary)"
  unfolding build_assignments by (rule distinct_fold_assign) (simp add: dict_keys_def)

lemma last_assigned_in: "last_assigned es k = Some v \<Longrightarrow> (k, v) \<in> set es"
  by (induction es) (auto split: option.splits if_splits)

lemma build_value_in: "map_of build_tenglish_dictionary k = Some v \<Longrightarrow> (k, v) \<in> set all_entries"
  by (simp add: map_of_build last_assigned_in)

lemma dict_get_cases:
  "dict_get d k dflt = dflt \<or> (\<exists>v. map_of d k = Some v \<and> dict_get d k dflt = v)"
  by (simp add: dict_get_def split: option.split)

subsection \<open>What the tokens turn into\<close>

lemma translate_token_lower:
  assumes "lowered tok"
  shows "translate_token s k d ks tok =
     (if \<not> is_word tok then tok
      else if k \<and> (tok \<in> ks \<or> english_plural_to_singular tok \<in> ks) then tok
      else if (dict_has d tok \<or> dict_has d (english_plural_to_singular tok))
              \<and> (35 \<le> s \<or> tok \<in> glue_set \<or> english_plural_to_singular tok \<in> glue_set)
        then dict_get d tok (dict_get d (english_plural_to_singular tok) tok)
      else tok)"
proof (cases "is_word tok")
  case True
  then have low: "no_upper tok"
    using assms by (rule word_lower)
  show ?thesis
    unfolding translate_token_def Let_def py_lower_id [OF low] to_title_like_lower [OF low]
    by auto
next
  case False
  then show ?thesis
    by (simp add: translate_token_def)
qed

lemma translate_token_all:
  assumes "list_all P tok" and "lowered tok"
    and "\<And>k v. map_of d k = Some v \<Longrightarrow> list_all P v"
  shows "list_all P (translate_token s k d ks tok)"
proof -
  let ?ws = "english_plural_to_singular tok"
  have "list_all P (dict_get d ?ws tok)"
    using dict_get_cases [of d ?ws tok] assms(1,3) by auto
  then have "list_all P (dict_get d tok (dict_get d ?ws tok))"
    using dict_get_cases [of d tok "dict_get d ?ws tok"] assms(3) by auto
  then show ?thesis
    using assms(1) by (simp add: translate_token_lower [OF assms(2)])
qed

lemma multiword_replacements_all:
  assumes "list_all P r" and "\<And>k v. map_of d k = Some v \<Longrightarrow> list_all P v"
  shows "list_all P (multiword_replacements d r)"
proof -
  have v: "list_all P (dict_get d k [])" for k
    using dict_get_cases [of d k "[]"] assms(2) by auto
  have "list_all P (fold (\<lambda>k r. re_sub_word True k (dict_get d k []) r) keys r)" for keys
    using assms(1) by (induction keys arbitrary: r) (simp_all add: re_sub_word_all v)
  then show ?thesis
    by (simp add: multiword_replacements_def)
qed

lemma translated_result_all:
  assumes "list_all (list_all P) (tokenize (apply_phrase_rules s))" and "P (Latin CHR '' '')"
    and "\<And>k v. map_of d k = Some v \<Longrightarrow> list_all P v"
  shows "list_all P (translated_result s st k d ks)"
proof -
  let ?tokens = "tokenize (apply_phrase_rules s)"
  have "list_all P (translate_token st k d ks tok)" if "tok \<in> set ?tokens" for tok
  proof -
    from that have "list_all P tok" and "lowered tok"
      using assms(1) tokens_lowered [of s] by (auto simp: list_all_iff)
    then show ?thesis
      by (rule translate_token_all) (rule assms(3))
  qed
  then have "list_all (list_all P) (map (translate_token st k d ks) ?tokens)"
    by (simp add: list_all_iff)
  then have "list_all P (py_join (str '' '') (map (translate_token st k d ks) ?tokens))"
    by (rule py_join_all) (simp add: assms(2))
  then show ?thesis
    by (simp add: translated_result_def Let_def multiword_replacements_all assms(3))
qed

text \<open>No upper case letter has the bit of value 32 set.\<close>

lemma not_upper_bit5: "\<not> latin_isupper (Char b0 b1 b2 b3 b4 True b6 b7)"
  by (cases b0; cases b1; cases b2; cases b3; cases b4; cases b6; cases b7)
     (simp_all add: latin_isupper_def code_def)

lemma entries_lower: "list_all (\<lambda>kv. no_upper (snd kv)) all_entries"
  by (simp add: all_entries_def base_def fixed_phrases_def keep_nouns_def verb_bank_def
        verb_entries_def irregular_past_def not_upper_bit5 Let_def)

lemma build_values_lower:
  "map_of build_tenglish_dictionary k = Some v \<Longrightarrow> no_upper v"
  using build_value_in [of k v] entries_lower by (auto simp: list_all_iff)

text \<open>
  No replacement string of the phrase rules and no value of the dictionary of the
  builder holds a backslash, so \<open>re.sub\<close> inserts each of them as it is.
\<close>

lemma replacements_plain:
  "list_all (\<lambda>kv. Latin CHR 0x5C \<notin> set (snd kv)) PHRASES"
  "list_all (\<lambda>kv. Latin CHR 0x5C \<notin> set (snd kv)) all_entries"
  by (simp_all add: PHRASES_def all_entries_def base_def fixed_phrases_def keep_nouns_def
        verb_bank_def verb_entries_def irregular_past_def Let_def)

lemma build_values_plain:
  "map_of build_tenglish_dictionary k = Some v \<Longrightarrow> Latin CHR 0x5C \<notin> set v"
  using build_value_in [of k v] replacements_plain(2) by (auto simp: list_all_iff)

text \<open>
  Claim C10 on the code. With the dictionary of the builder, for every strength, flags
  and keep-English set, and for every text that \<open>str.lower\<close> turns into a string
  without upper case letters, no character of the output of \<open>convert_to_tenglish\<close> is
  an upper case letter. Every text of characters up to U+00FF is such a text
  (\<open>py_lower_latin\<close>).
\<close>

theorem C10_output_lower_case:
  assumes "no_upper (py_lower text)"
  shows "no_upper (convert_to_tenglish text s k p a sl build_tenglish_dictionary ks)"
proof -
  have sp: "\<not> py_isupper (Latin CHR '' '')"
    by (simp add: latin_isupper_def code_def)
  have "no_upper (translated_result text s k build_tenglish_dictionary ks)"
    using tokens_lower [OF assms] sp build_values_lower
    by (rule translated_result_all)
  then have "no_upper (styled_result p a sl
      (translated_result text s k build_tenglish_dictionary ks))"
    by (rule styled_result_all) (simp_all add: latin_isupper_def code_def)
  then show ?thesis
    using sp by (simp add: convert_to_tenglish_def clean_punctuation_all)
qed

theorem C10_output_lower_case_witness:
  "no_upper (py_lower (str ''Go HOME''))
   \<and> no_upper (convert_to_tenglish (str ''Go HOME'') 65 True False True False
        build_tenglish_dictionary KEEP_ENGLISH_DEFAULT)"
  using C10_output_lower_case [of "str ''Go HOME''" 65 True False True False
      KEEP_ENGLISH_DEFAULT] py_lower_latin [of "''Go HOME''"]
  by blast

subsection \<open>The strength threshold\<close>

lemma translate_token_threshold:
  assumes "(35 \<le> s1) = (35 \<le> s2)"
  shows "translate_token s1 k d ks = translate_token s2 k d ks"
proof (rule ext)
  fix tok
  show "translate_token s1 k d ks tok = translate_token s2 k d ks tok"
    unfolding translate_token_def assms by (rule refl)
qed

lemma plain_templates_build: "plain_templates build_tenglish_dictionary"
  unfolding plain_templates_def list_all_iff
proof
  fix k
  show "Latin CHR 0x5C \<notin> set (dict_get build_tenglish_dictionary k [])"
    using dict_get_cases [of build_tenglish_dictionary k "[]"] build_values_plain by auto
qed

text \<open>
  Claim C9. The strength is a Python integer, unbounded, and the code only compares it
  with 35; the one step of the conversion that can raise is \<open>re.sub\<close> on a
  replacement with a backslash, which a dictionary of \<open>plain_templates\<close> does not
  have. For such a dictionary the strength enters the conversion only through the test
  \<open>telugu_strength >= 35\<close>: two strengths on the same side of 35 give the same output
  for the same text, flags, dictionary and keep-English set. So a strength below 0
  converts as 0 does, and a strength above 100 as 100 does.
\<close>

theorem C9_strength_threshold:
  assumes "plain_templates d"
  shows "((35 \<le> s1) = (35 \<le> s2) \<longrightarrow>
      convert_to_tenglish text s1 k p a sl d ks = convert_to_tenglish text s2 k p a sl d ks)
   \<and> (sa < 0 \<longrightarrow>
      convert_to_tenglish text sa k p a sl d ks = convert_to_tenglish text 0 k p a sl d ks)
   \<and> (100 < sb \<longrightarrow>
      convert_to_tenglish text sb k p a sl d ks = convert_to_tenglish text 100 k p a sl d ks)"
proof -
  have eq: "convert_to_tenglish text x k p a sl d ks = convert_to_tenglish text y k p a sl d ks"
    if "(35 \<le> x) = (35 \<le> y)" for x y
    using translate_token_threshold [OF that, of k d ks]
    by (simp add: convert_to_tenglish_def translated_result_def)
  show ?thesis
    by (intro conjI impI eq) simp_all
qed

theorem C9_strength_threshold_witness:
  "plain_templates build_tenglish_dictionary
   \<and> convert_to_tenglish (str ''go now'') 20 True False True False build_tenglish_dictionary
       KEEP_ENGLISH_DEFAULT
     = convert_to_tenglish (str ''go now'') 34 True False True False build_tenglish_dictionary
         KEEP_ENGLISH_DEFAULT
   \<and> convert_to_tenglish (str ''go now'') (- 7) True False True False build_tenglish_dictionary
       KEEP_ENGLISH_DEFAULT
     = convert_to_tenglish (str ''go now'') 0 True False True False build_tenglish_dictionary
         KEEP_ENGLISH_DEFAULT
   \<and> convert_to_tenglish (str ''go now'') 250 True False True False build_tenglish_dictionary
       KEEP_ENGLISH_DEFAULT
     = convert_to_tenglish (str ''go now'') 100 True False True False build_tenglish_dictionary
         KEEP_ENGLISH_DEFAULT"
  using C9_strength_threshold [OF plain_templates_build, of 20 34 "str ''go now''" True False
          True False KEEP_ENGLISH_DEFAULT "- 7" 250] plain_templates_build
  by simp

subsection \<open>Character classes by bits\<close>

text \<open>
  The classes on the characters U+0020 to U+007F, read off the bits of a character
  (the first argument of \<open>Char\<close> is the lowest bit).
\<close>

lemma lower_char_bit5:
  "latin_lower (Char b0 b1 b2 b3 b4 True b6 b7) = Char b0 b1 b2 b3 b4 True b6 b7"
  by (simp add: latin_lower_def not_upper_bit5)

lemma isspace_60:
  "latin_isspace (Char b0 b1 b2 b3 b4 True True False) = False"
  by (cases b0; cases b1; cases b2; cases b3; cases b4)
     (simp_all add: latin_isspace_def code_def)

lemma is_punct_60:
  "latin_punct (Char b0 b1 b2 b3 b4 True True False) = False"
  by (cases b0; cases b1; cases b2; cases b3; cases b4)
     (simp_all add: latin_punct_def)

lemma re_word_char_60:
  "latin_word_char (Char b0 b1 b2 b3 b4 True True False) = letter_bits b0 b1 b2 b3 b4"
  by (cases b0; cases b1; cases b2; cases b3; cases b4)
     (simp_all add: latin_word_char_def code_def letter_bits_def)

lemma word_class_60:
  "latin_word_class (Char b0 b1 b2 b3 b4 True True False) = letter_bits b0 b1 b2 b3 b4"
  by (cases b0; cases b1; cases b2; cases b3; cases b4)
     (simp_all add: latin_word_class_def code_def letter_bits_def)

lemma isspace_40:
  "latin_isspace (Char b0 b1 b2 b3 b4 False True False) = False"
  by (cases b0; cases b1; cases b2; cases b3; cases b4)
     (simp_all add: latin_isspace_def code_def)

lemma is_punct_40:
  "latin_punct (Char b0 b1 b2 b3 b4 False True False) = False"
  by (cases b0; cases b1; cases b2; cases b3; cases b4)
     (simp_all add: latin_punct_def)

lemma re_word_char_40:
  "latin_word_char (Char b0 b1 b2 b3 b4 False True False) =
     (letter_bits b0 b1 b2 b3 b4 \<or> (b0 \<and> b1 \<and> b2 \<and> b3 \<and> b4))"
  by (cases b0; cases b1; cases b2; cases b3; cases b4)
     (simp_all add: latin_word_char_def code_def letter_bits_def)

lemma word_class_40:
  "latin_word_class (Char b0 b1 b2 b3 b4 False True False) = letter_bits b0 b1 b2 b3 b4"
  by (cases b0; cases b1; cases b2; cases b3; cases b4)
     (simp_all add: latin_word_class_def code_def letter_bits_def)

lemma isupper_40:
  "latin_isupper (Char b0 b1 b2 b3 b4 False True False) = letter_bits b0 b1 b2 b3 b4"
  by (cases b0; cases b1; cases b2; cases b3; cases b4)
     (simp_all add: latin_isupper_def code_def letter_bits_def)

lemma lower_char_40:
  "latin_lower (Char b0 b1 b2 b3 b4 False True False) =
     Char b0 b1 b2 b3 b4 (letter_bits b0 b1 b2 b3 b4) True False"
  by (cases b0; cases b1; cases b2; cases b3; cases b4)
     (simp_all add: latin_lower_def latin_isupper_def code_def letter_bits_def char_of_eq_iff)

lemma isspace_20:
  "latin_isspace (Char b0 b1 b2 b3 b4 True False False) = (\<not> (b0 \<or> b1 \<or> b2 \<or> b3 \<or> b4))"
  by (cases b0; cases b1; cases b2; cases b3; cases b4)
     (simp_all add: latin_isspace_def code_def)

lemma re_word_char_20:
  "latin_word_char (Char b0 b1 b2 b3 b4 True False False) = (b4 \<and> \<not> (b3 \<and> (b1 \<or> b2)))"
  by (cases b0; cases b1; cases b2; cases b3; cases b4)
     (simp_all add: latin_word_char_def code_def)

lemma word_class_20:
  "latin_word_class (Char b0 b1 b2 b3 b4 True False False) = (b0 \<and> b1 \<and> b2 \<and> \<not> b3 \<and> \<not> b4)"
  by (cases b0; cases b1; cases b2; cases b3; cases b4)
     (simp_all add: latin_word_class_def code_def)

lemmas char_classes = lower_char_bit5 not_upper_bit5
  isspace_60 is_punct_60 re_word_char_60 word_class_60
  isspace_40 is_punct_40 re_word_char_40 word_class_40 isupper_40 lower_char_40
  isspace_20 re_word_char_20 word_class_20 letter_bits_def latin_punct_def

subsection \<open>Looking a key up in the dictionary of the builder\<close>

lemma last_assigned_append:
  "last_assigned (xs @ ys) k =
     (case last_assigned ys k of Some v \<Rightarrow> Some v | None \<Rightarrow> last_assigned xs k)"
  by (induction xs) (auto split: option.split)

lemma lookup_verbs_entries: "last_assigned (concat (map verb_entries vb)) k = lookup_verbs vb k"
  by (induction vb) (simp_all add: last_assigned_append)

lemma lookup_build:
  "map_of build_tenglish_dictionary k =
     (case lookup_verbs verb_bank k of
        Some v \<Rightarrow> Some v
      | None \<Rightarrow>
         (case last_assigned (map (\<lambda>n. (n, n)) keep_nouns) k of
            Some v \<Rightarrow> Some v
          | None \<Rightarrow>
             (case last_assigned fixed_phrases k of
                Some v \<Rightarrow> Some v
              | None \<Rightarrow> last_assigned base k)))"
  by (simp add: map_of_build all_entries_def last_assigned_append lookup_verbs_entries
        split: option.split)


lemmas lookup_simps = lookup_build verb_bank_def verb_entries_def irregular_past_def
  py_endswith_def suffix_to_prefix Let_def keep_nouns_def fixed_phrases_def base_def

subsection \<open>The multiword replacements on a given string\<close>

lemma sub_scan_no_match: "\<not> search_scan ic [lit] p s \<Longrightarrow> sub_scan ic lit rep p 0 s = s"
  by (induction s arbitrary: p) (auto split: if_splits)

lemma re_sub_word_no_match:
  "\<not> search_scan ic [lit] None s \<Longrightarrow> re_sub_word ic lit rep s = s"
  by (simp add: re_sub_word_def sub_scan_no_match)

lemma fold_sub_no_match:
  "\<forall>k \<in> set keys. \<not> search_scan True [k] None r \<Longrightarrow>
   fold (\<lambda>k r. re_sub_word True k (g k) r) keys r = r"
  by (induction keys) (simp_all add: re_sub_word_no_match)

lemma multiword_keys_set:
  "set (multiword_keys d) = {k \<in> set (dict_keys d). Latin CHR '' '' \<in> set k}"
  by (simp add: multiword_keys_def)

lemma distinct_multiword_keys: "distinct (dict_keys d) \<Longrightarrow> distinct (multiword_keys d)"
  by (simp add: multiword_keys_def)

lemma single_word_keys:
  "list_all (\<lambda>kv. Latin CHR '' '' \<notin> set (fst kv)) base"
  "list_all (\<lambda>n. Latin CHR '' '' \<notin> set n) keep_nouns"
  by (simp_all add: base_def keep_nouns_def)

text \<open>
  A property of the keys with a space follows from the property of the keys of
  \<open>fixed_phrases\<close> and of the keys that each round of the loop over the verbs assigns.
\<close>

lemma multiword_keys_build:
  assumes "list_all (\<lambda>kv. Latin CHR '' '' \<in> set (fst kv) \<longrightarrow> Q (fst kv)) fixed_phrases"
    and "list_all (\<lambda>vf. list_all (\<lambda>kv. Latin CHR '' '' \<in> set (fst kv) \<longrightarrow> Q (fst kv))
           (verb_entries vf)) verb_bank"
    and "k \<in> set (multiword_keys build_tenglish_dictionary)"
  shows "Q k"
proof -
  from assms(3) have sp: "Latin CHR '' '' \<in> set k" and "k \<in> fst ` set all_entries"
    by (simp_all add: multiword_keys_set keys_build)
  then obtain v where "(k, v) \<in> set all_entries"
    by auto
  then have "(k, v) \<in> set base \<or> k \<in> set keep_nouns \<or> (k, v) \<in> set fixed_phrases
      \<or> (\<exists>vf \<in> set verb_bank. (k, v) \<in> set (verb_entries vf))"
    by (auto simp: all_entries_def)
  then show ?thesis
  proof (elim disjE bexE)
    assume "(k, v) \<in> set base"
    with sp single_word_keys(1) show ?thesis by (force simp: list_all_iff)
  next
    assume "k \<in> set keep_nouns"
    with sp single_word_keys(2) show ?thesis by (auto simp: list_all_iff)
  next
    assume "(k, v) \<in> set fixed_phrases"
    with sp assms(1) show ?thesis by (force simp: list_all_iff)
  next
    fix vf
    assume "vf \<in> set verb_bank" and "(k, v) \<in> set (verb_entries vf)"
    with sp assms(2) show ?thesis by (force simp: list_all_iff)
  qed
qed

lemma list_all_imp: "list_all P xs \<Longrightarrow> (\<And>x. P x \<Longrightarrow> Q x) \<Longrightarrow> list_all Q xs"
  by (simp add: list_all_iff)

lemma multiword_unchanged:
  assumes "list_all (\<lambda>kv. no_hit (fst kv) r) fixed_phrases"
    and "list_all (\<lambda>vf. list_all (\<lambda>kv. no_hit (fst kv) r) (verb_entries vf)) verb_bank"
  shows "multiword_replacements build_tenglish_dictionary r = r"
proof -
  have "\<not> search_scan True [k] None r"
    if "k \<in> set (multiword_keys build_tenglish_dictionary)" for k
  proof (rule multiword_keys_build [OF _ _ that])
    show "list_all (\<lambda>kv. Latin CHR '' '' \<in> set (fst kv) \<longrightarrow> \<not> search_scan True [fst kv] None r)
        fixed_phrases"
      by (rule list_all_imp [OF assms(1)]) (simp add: no_hit_def)
    show "list_all (\<lambda>vf. list_all
        (\<lambda>kv. Latin CHR '' '' \<in> set (fst kv) \<longrightarrow> \<not> search_scan True [fst kv] None r)
        (verb_entries vf)) verb_bank"
      by (rule list_all_imp [OF assms(2)], erule list_all_imp) (simp add: no_hit_def)
  qed
  then show ?thesis
    by (simp add: multiword_replacements_def fold_sub_no_match)
qed

lemma fold_sub_single:
  assumes "distinct keys" and "k0 \<in> set keys"
    and "\<forall>k \<in> set keys. k \<noteq> k0 \<longrightarrow>
           \<not> search_scan True [k] None r \<and> \<not> search_scan True [k] None (re_sub_word True k0 (g k0) r)"
  shows "fold (\<lambda>k r. re_sub_word True k (g k) r) keys r = re_sub_word True k0 (g k0) r"
proof -
  from assms(2) obtain xs ys where keys: "keys = xs @ k0 # ys"
    by (auto dest: split_list)
  with assms(1) have out: "k0 \<notin> set xs" "k0 \<notin> set ys"
    by auto
  have "fold (\<lambda>k r. re_sub_word True k (g k) r) xs r = r"
    by (rule fold_sub_no_match) (use assms(3) keys out in auto)
  moreover have "fold (\<lambda>k r. re_sub_word True k (g k) r) ys (re_sub_word True k0 (g k0) r)
      = re_sub_word True k0 (g k0) r"
    by (rule fold_sub_no_match) (use assms(3) keys out in auto)
  ultimately show ?thesis
    by (simp add: keys)
qed

lemma multiword_single:
  assumes "map_of build_tenglish_dictionary k0 = Some v0" and "Latin CHR '' '' \<in> set k0"
    and "re_sub_word True k0 v0 r = r1"
    and "list_all (\<lambda>kv. fst kv = k0 \<or> (no_hit (fst kv) r \<and> no_hit (fst kv) r1)) fixed_phrases"
    and "list_all (\<lambda>vf. list_all (\<lambda>kv. fst kv = k0 \<or> (no_hit (fst kv) r \<and> no_hit (fst kv) r1))
           (verb_entries vf)) verb_bank"
  shows "multiword_replacements build_tenglish_dictionary r = r1"
proof -
  let ?d = build_tenglish_dictionary
  have g: "dict_get ?d k0 [] = v0"
    by (simp add: dict_get_def assms(1))
  from assms(1) have "(k0, v0) \<in> set ?d"
    by (rule map_of_SomeD)
  then have "k0 \<in> set (dict_keys ?d)"
    by (force simp: dict_keys_def)
  with assms(2) have k0: "k0 \<in> set (multiword_keys ?d)"
    by (simp add: multiword_keys_set)
  have other: "k \<noteq> k0 \<longrightarrow>
      \<not> search_scan True [k] None r \<and> \<not> search_scan True [k] None r1"
    if "k \<in> set (multiword_keys ?d)" for k
  proof (rule multiword_keys_build [OF _ _ that])
    show "list_all (\<lambda>kv. Latin CHR '' '' \<in> set (fst kv) \<longrightarrow> (fst kv \<noteq> k0 \<longrightarrow>
        \<not> search_scan True [fst kv] None r \<and> \<not> search_scan True [fst kv] None r1))
        fixed_phrases"
      by (rule list_all_imp [OF assms(4)]) (auto simp: no_hit_def)
    show "list_all (\<lambda>vf. list_all (\<lambda>kv. Latin CHR '' '' \<in> set (fst kv) \<longrightarrow> (fst kv \<noteq> k0 \<longrightarrow>
        \<not> search_scan True [fst kv] None r \<and> \<not> search_scan True [fst kv] None r1))
        (verb_entries vf)) verb_bank"
      by (rule list_all_imp [OF assms(5)], erule list_all_imp) (auto simp: no_hit_def)
  qed
  have "fold (\<lambda>k r. re_sub_word True k (dict_get ?d k []) r) (multiword_keys ?d) r
      = re_sub_word True k0 (dict_get ?d k0 []) r"
    by (rule fold_sub_single [OF distinct_multiword_keys [OF distinct_keys_build] k0])
       (use other g assms(3) in auto)
  then show ?thesis
    by (simp add: multiword_replacements_def g assms(3))
qed

lemmas scan_simps = no_hit_def verb_bank_def verb_entries_def irregular_past_def
  py_endswith_def suffix_to_prefix Let_def fixed_phrases_def lit_at_def boundary_def
  char_match_def char_classes

subsection \<open>Whole words\<close>

text \<open>
  The pattern \<open>\b lit \b\<close> for a literal of \<open>\w\<close> characters matches exactly the
  segments that are equal to the literal.
\<close>

lemma concat_word_segments: "concat (word_segments s) = s"
  by (induction s rule: word_segments.induct) simp_all

lemma lit_rest_append:
  "lit_rest False lit p (lit @ r) =
     boundary (if lit = [] then p else Some (last lit)) (first_char r)"
  by (induction lit arbitrary: p) (simp_all add: char_match_def)

lemma lit_rest_prefix: "lit_rest False lit p s \<Longrightarrow> prefix lit s"
  by (induction lit arbitrary: p s)
     (auto simp: char_match_def neq_Nil_conv split: if_splits list.splits elim!: lit_rest.elims)

lemma lit_at_inside: "is_w p \<Longrightarrow> is_w (first_char s) \<Longrightarrow> \<not> lit_at ic a p s"
  by (simp add: lit_at_def boundary_def)

lemma lit_at_nonword: "wordy a \<Longrightarrow> \<not> is_w (first_char s) \<Longrightarrow> \<not> lit_at False a p s"
  by (cases a; cases s) (auto simp: lit_at_def char_match_def)

lemma nonword_start:
  "\<not> is_w (first_char r) \<Longrightarrow> takeWhile re_word_char r = [] \<and> dropWhile re_word_char r = r"
  by (cases r) simp_all

lemma takeWhile_word_append:
  "list_all re_word_char w \<Longrightarrow> \<not> is_w (first_char r) \<Longrightarrow> takeWhile re_word_char (w @ r) = w"
  by (induction w) (simp_all add: nonword_start)

lemma dropWhile_word_append:
  "list_all re_word_char w \<Longrightarrow> \<not> is_w (first_char r) \<Longrightarrow> dropWhile re_word_char (w @ r) = r"
  by (induction w) (simp_all add: nonword_start)

lemma dropWhile_word_start: "\<not> is_w (first_char (dropWhile re_word_char cs))"
proof (cases "dropWhile re_word_char cs")
  case Nil
  show ?thesis unfolding Nil by simp
next
  case (Cons a l)
  have "dropWhile re_word_char cs \<noteq> []"
    unfolding Cons by simp
  from hd_dropWhile [OF this] show ?thesis
    unfolding Cons by simp
qed

lemma lit_at_word_start:
  assumes "wordy a" and "\<not> is_w p" and "wordy w" and "\<not> is_w (first_char r)"
  shows "lit_at False a p (w @ r) = (a = w)"
proof
  assume m: "lit_at False a p (w @ r)"
  then have "lit_rest False a p (w @ r)"
    by (simp add: lit_at_def split: if_splits)
  then obtain r' where r': "w @ r = a @ r'"
    using lit_rest_prefix [of a p "w @ r"] by (auto simp: prefix_def)
  with m assms(1) have "boundary (Some (last a)) (first_char r')"
    by (simp add: lit_at_def lit_rest_append split: if_splits)
  moreover from assms(1) have "re_word_char (last a)"
    by (simp add: list_all_iff)
  ultimately have "\<not> is_w (first_char r')"
    by (simp add: boundary_def)
  then have "takeWhile re_word_char (a @ r') = a"
    using assms(1) by (simp add: takeWhile_word_append)
  moreover have "takeWhile re_word_char (w @ r) = w"
    using assms(3,4) by (simp add: takeWhile_word_append)
  ultimately show "a = w"
    by (simp add: r')
next
  assume "a = w"
  moreover from assms(3) have "re_word_char (last w)" "is_w (first_char (w @ r))"
    by (cases w; simp add: list_all_iff)+
  ultimately show "lit_at False a p (w @ r)"
    using assms by (simp add: lit_at_def lit_rest_append boundary_def)
qed

text \<open>The character before the position that follows a string.\<close>

lemma sub_scan_skip:
  "sub_scan ic lit rep p (length xs) (xs @ r) =
     sub_scan ic lit rep (if xs = [] then p else Some (last xs)) 0 r"
  by (induction xs arbitrary: p) simp_all

lemma sub_scan_inside:
  "is_w p \<Longrightarrow> list_all re_word_char xs \<Longrightarrow>
   sub_scan ic lit rep p 0 (xs @ r) =
     xs @ sub_scan ic lit rep (if xs = [] then p else Some (last xs)) 0 r"
proof (induction xs arbitrary: p)
  case Nil
  then show ?case by simp
next
  case (Cons x xs)
  then have "\<not> lit_at ic lit p (x # xs @ r)"
    by (simp add: lit_at_inside)
  with Cons show ?case by simp
qed

lemma sub_scan_word:
  assumes "wordy lit" and "\<not> is_w p" and "wordy w" and "\<not> is_w (first_char r)"
  shows "sub_scan False lit rep p 0 (w @ r) =
     (if w = lit then rep else w) @ sub_scan False lit rep (Some (last w)) 0 r"
proof -
  from assms(3) obtain c cs where w: "w = c # cs" and c: "re_word_char c"
    and cs: "list_all re_word_char cs"
    by (cases w) auto
  have l: "(if cs = [] then Some c else Some (last cs)) = Some (last w)"
    by (simp add: w)
  show ?thesis
  proof (cases "w = lit")
    case True
    have m: "lit_at False (c # cs) p (c # cs @ r)"
      using lit_at_word_start [OF assms] True by (simp add: w)
    show ?thesis
      unfolding True [symmetric] w
      using m sub_scan_skip [of False "c # cs" rep "Some c" cs r]
      by (simp add: l [unfolded w])
  next
    case False
    then have "\<not> lit_at False lit p (w @ r)"
      using lit_at_word_start [OF assms] by auto
    then show ?thesis
      using False sub_scan_inside [of "Some c" cs False lit rep r] c cs
      by (simp add: w l [unfolded w])
  qed
qed

lemma sub_scan_segments:
  assumes "wordy lit"
  shows "\<not> is_w p \<or> \<not> is_w (first_char s) \<Longrightarrow>
     sub_scan False lit rep p 0 s =
       concat (map (\<lambda>seg. if seg = lit then rep else seg) (word_segments s))"
proof (induction s arbitrary: p rule: word_segments.induct)
  case 1
  then show ?case by simp
next
  case (2 c cs)
  show ?case
  proof (cases "re_word_char c")
    case True
    let ?w = "c # takeWhile re_word_char cs" and ?r = "dropWhile re_word_char cs"
    have r: "\<not> is_w (first_char ?r)"
      by (rule dropWhile_word_start)
    have w: "wordy ?w"
      using True by (auto simp: list_all_iff dest: set_takeWhileD)
    from True "2.prems" have p: "\<not> is_w p"
      by simp
    have "sub_scan False lit rep p 0 (?w @ ?r) =
        (if ?w = lit then rep else ?w) @ sub_scan False lit rep (Some (last ?w)) 0 ?r"
      by (rule sub_scan_word [OF assms p w r])
    moreover have "sub_scan False lit rep (Some (last ?w)) 0 ?r =
        concat (map (\<lambda>seg. if seg = lit then rep else seg) (word_segments ?r))"
      using "2.IH"(1) [OF True, of "Some (last ?w)"] r by simp
    ultimately show ?thesis
      using True by simp
  next
    case False
    then have "\<not> lit_at False lit p (c # cs)"
      using assms by (intro lit_at_nonword) simp_all
    moreover have "[c] \<noteq> lit"
      using False assms by auto
    ultimately show ?thesis
      using False "2.IH"(2) [OF False, of "Some c"] by simp
  qed
qed

lemma re_sub_word_segments:
  "wordy lit \<Longrightarrow>
   re_sub_word False lit rep s =
     concat (map (\<lambda>seg. if seg = lit then rep else seg) (word_segments s))"
  by (simp add: re_sub_word_def sub_scan_segments)

lemma word_segments_word:
  "wordy w \<Longrightarrow> \<not> is_w (first_char r) \<Longrightarrow> word_segments (w @ r) = w # word_segments r"
  by (cases w) (simp_all add: takeWhile_word_append dropWhile_word_append)

lemma word_segments_nonword:
  "\<not> is_w (first_char r) \<Longrightarrow>
   (case word_segments r of [] \<Rightarrow> True | y # _ \<Rightarrow> other_seg y)"
  by (cases r) (simp_all add: other_seg_def)

lemma segmented_word_segments: "segmented (word_segments s)"
proof (induction s rule: word_segments.induct)
  case 1
  then show ?case by simp
next
  case (2 c cs)
  show ?case
  proof (cases "re_word_char c")
    case True
    then have "wordy (c # takeWhile re_word_char cs)"
      by (auto simp: list_all_iff dest: set_takeWhileD)
    with True 2(1) word_segments_nonword [OF dropWhile_word_start, of cs]
    show ?thesis by simp
  next
    case False
    with 2(2) show ?thesis by (simp add: other_seg_def)
  qed
qed

lemma other_seg_first: "other_seg y \<Longrightarrow> \<not> is_w (first_char (y @ r))"
  by (auto simp: other_seg_def split: list.splits)

lemma word_segments_concat: "segmented xs \<Longrightarrow> word_segments (concat xs) = xs"
proof (induction xs)
  case Nil
  then show ?case by simp
next
  case (Cons x xs)
  then have IH: "word_segments (concat xs) = xs"
    by simp
  from Cons.prems consider "other_seg x"
    | "wordy x" "case xs of [] \<Rightarrow> True | y # _ \<Rightarrow> other_seg y"
    by auto
  then show ?case
  proof cases
    case 1
    then obtain c where "x = [c]" "\<not> re_word_char c"
      by (auto simp: other_seg_def split: list.splits)
    with IH show ?thesis by simp
  next
    case 2
    then have "\<not> is_w (first_char (concat xs))"
      by (cases xs) (simp_all add: other_seg_first)
    with 2(1) IH show ?thesis
      by (simp add: word_segments_word)
  qed
qed

lemma segmented_map:
  assumes "\<And>x. wordy x \<Longrightarrow> wordy (g x)" and "\<And>x. other_seg x \<Longrightarrow> g x = x"
  shows "segmented xs \<Longrightarrow> segmented (map g xs)"
proof (induction xs)
  case Nil
  then show ?case by simp
next
  case (Cons x xs)
  then have "segmented (map g xs)"
    by simp
  moreover from Cons.prems
  have "(wordy (g x) \<and> (case map g xs of [] \<Rightarrow> True | y # _ \<Rightarrow> other_seg y)) \<or> other_seg (g x)"
    using assms by (cases xs) auto
  ultimately show ?case
    by simp
qed

lemma other_seg_not_wordy: "other_seg x \<Longrightarrow> wordy lit \<Longrightarrow> x \<noteq> lit"
  by (auto simp: other_seg_def split: list.splits)

lemma re_sub_word_word_segments:
  assumes "wordy lit" and "wordy rep"
  shows "word_segments (re_sub_word False lit rep s) =
     map (\<lambda>seg. if seg = lit then rep else seg) (word_segments s)"
proof -
  have "segmented (map (\<lambda>seg. if seg = lit then rep else seg) (word_segments s))"
    by (rule segmented_map [OF _ _ segmented_word_segments])
       (use assms other_seg_not_wordy [OF _ assms(1)] in auto)
  then show ?thesis
    by (simp add: re_sub_word_segments [OF assms(1)] word_segments_concat)
qed

lemma postposition_words: "wordy (str ''to'')" "wordy (str ''ki'')" "wordy (str ''in'')" "wordy (str ''lo'')"
  "wordy (str ''with'')" "wordy (str ''tho'')"
  by (simp_all add: char_classes)

text \<open>
  Claim C6, as the code has it. The postposition styling replaces exactly the segments
  \<open>to\<close>, \<open>in\<close> and \<open>with\<close> of the string, that is, their occurrences between
  characters other than letters, digits and the underscore (or the ends of the string),
  and keeps every other segment: a longer run of letters such as \<open>tomorrow\<close> is kept.
\<close>

theorem C6_postposition_frame:
  "postposition_styling s = concat (map postposition_word (word_segments s))
   \<and> concat (word_segments s) = s
   \<and> postposition_styling (str ''tomorrow'') = str ''tomorrow''"
proof -
  let ?f = "\<lambda>lit rep seg. if seg = lit then rep else (seg :: pystr)"
  have "postposition_styling s =
      concat (map (?f (str ''with'') (str ''tho'')) (map (?f (str ''in'') (str ''lo'')) (map (?f (str ''to'') (str ''ki''))
        (word_segments s))))"
    unfolding postposition_styling_def Let_def
      re_sub_word_segments [OF postposition_words(5)]
      re_sub_word_word_segments [OF postposition_words(3,4)]
      re_sub_word_word_segments [OF postposition_words(1,2)]
    by (rule refl)
  also have "\<dots> = concat (map postposition_word (word_segments s))"
  proof -
    have "?f (str ''with'') (str ''tho'') (?f (str ''in'') (str ''lo'') (?f (str ''to'') (str ''ki'') seg)) = postposition_word seg"
      for seg
      by (simp add: postposition_word_def)
    then show ?thesis
      by (simp add: comp_def del: str.simps)
  qed
  finally have eq: "postposition_styling s = concat (map postposition_word (word_segments s))" .
  have "postposition_styling (str ''tomorrow'') = str ''tomorrow''"
    by (simp add: postposition_styling_def re_sub_word_def lit_at_def boundary_def
          char_match_def char_classes)
  with eq show ?thesis
    by (simp add: concat_word_segments)
qed

text \<open>
  The claim as the specification states it fails: of the single token \<open>to-do\<close> the
  styling rewrites the first two letters.
\<close>

theorem C6_postposition_frame_counterexample:
  "tokenize (str ''to-do'') = [str ''to-do''] \<and> postposition_styling (str ''to-do'') = str ''ki-do''"
  by (simp add: tokenize_def punct_sub_def py_strip_def py_lstrip_def py_rstrip_def
        postposition_styling_def re_sub_word_def lit_at_def boundary_def char_match_def
        char_classes)

subsection \<open>Standalone words and the slang pass\<close>

lemma search_scan_inside:
  "is_w p \<Longrightarrow> list_all re_word_char xs \<Longrightarrow>
   search_scan ic alts p (xs @ r) =
     search_scan ic alts (if xs = [] then p else Some (last xs)) r"
proof (induction xs arbitrary: p)
  case Nil
  then show ?case by simp
next
  case (Cons x xs)
  then have "\<not> list_ex (\<lambda>a. lit_at ic a p (x # xs @ r)) alts"
    by (simp add: list_ex_iff lit_at_inside)
  with Cons show ?case by simp
qed

lemma search_scan_segments:
  assumes "list_all (\<lambda>a. wordy a) alts"
  shows "\<not> is_w p \<or> \<not> is_w (first_char s) \<Longrightarrow>
     search_scan False alts p s = list_ex (\<lambda>seg. seg \<in> set alts) (word_segments s)"
proof (induction s arbitrary: p rule: word_segments.induct)
  case 1
  then show ?case by simp
next
  case (2 c cs)
  have alts: "wordy a" if "a \<in> set alts" for a
    using assms that by (simp add: list_all_iff)
  show ?case
  proof (cases "re_word_char c")
    case True
    let ?t = "takeWhile re_word_char cs" and ?r = "dropWhile re_word_char cs"
    have r: "\<not> is_w (first_char ?r)"
      by (rule dropWhile_word_start)
    have t: "list_all re_word_char ?t"
      by (auto simp: list_all_iff dest: set_takeWhileD)
    with True have w: "wordy (c # ?t)"
      by simp
    from True "2.prems" have p: "\<not> is_w p"
      by simp
    have "lit_at False a p ((c # ?t) @ ?r) = (a = c # ?t)" if "a \<in> set alts" for a
      by (rule lit_at_word_start [OF alts [OF that] p w r])
    then have first: "list_ex (\<lambda>a. lit_at False a p (c # cs)) alts = (c # ?t \<in> set alts)"
      by (auto simp: list_ex_iff)
    have "search_scan False alts (Some c) (?t @ ?r) =
        search_scan False alts (if ?t = [] then Some c else Some (last ?t)) ?r"
      using True t by (intro search_scan_inside) simp_all
    also have "\<dots> = list_ex (\<lambda>seg. seg \<in> set alts) (word_segments ?r)"
      using "2.IH"(1) [OF True] r by simp
    finally have rest: "search_scan False alts (Some c) cs =
        list_ex (\<lambda>seg. seg \<in> set alts) (word_segments ?r)"
      by simp
    show ?thesis
      using True first rest by simp
  next
    case False
    then have "\<not> lit_at False a p (c # cs)" if "a \<in> set alts" for a
      using alts [OF that] by (intro lit_at_nonword) simp_all
    then have "\<not> list_ex (\<lambda>a. lit_at False a p (c # cs)) alts"
      by (simp add: list_ex_iff)
    moreover have "[c] \<notin> set alts"
      using False alts [of "[c]"] by auto
    ultimately show ?thesis
      using False "2.IH"(2) [OF False, of "Some c"] by simp
  qed
qed

lemma re_search_words_segments:
  "list_all (\<lambda>a. wordy a) alts \<Longrightarrow>
   re_search_words alts s = list_ex (\<lambda>seg. seg \<in> set alts) (word_segments s)"
  by (simp add: re_search_words_def search_scan_segments)

lemma replace_one_char:
  "replace_scan [q] new 0 s = concat (map (\<lambda>c. if c = q then new else [c]) s)"
  by (induction s) auto

text \<open>
  Claim C7, as the code has it. With the slang pass enabled: a result with a question
  mark gets \<open>ra\<close> and a space before it in front of every question mark unless it has
  a standalone \<open>ra\<close>, \<open>rey\<close> or \<open>bro\<close>, and is left as it is otherwise; a result
  without a question mark gets \<open>ra\<close> and a space before it at its end if it has at most
  7 whitespace-delimited words and no standalone \<open>ra\<close> or \<open>rey\<close>, and is left as it
  is otherwise. With the polite mode off, this is the result before the cleaning of
  the spacing.
\<close>

theorem C7_telangana_slang:
  "telangana_slang r =
     (if Latin CHR ''?'' \<in> set r then
        (if list_ex (\<lambda>seg. seg \<in> set [str ''ra'', str ''rey'', str ''bro'']) (word_segments r) then r
         else ra_before_question r)
      else if length (py_split r) \<le> 7
              \<and> \<not> list_ex (\<lambda>seg. seg \<in> set [str ''ra'', str ''rey'']) (word_segments r)
        then r @ str '' ra''
      else r)
   \<and> styled_result False a True r0 =
       telangana_slang (if a then postposition_styling r0 else r0)"
proof -
  have w3: "list_all (\<lambda>a. wordy a) [str ''ra'', str ''rey'', str ''bro'']"
    and w2: "list_all (\<lambda>a. wordy a) [str ''ra'', str ''rey'']"
    by (simp_all add: char_classes)
  have q: "str ''?'' = [Latin CHR ''?'']"
    by simp
  show ?thesis
    unfolding telangana_slang_def re_search_words_segments [OF w3]
      re_search_words_segments [OF w2] py_replace_def q replace_one_char
      ra_before_question_def styled_result_def Let_def
    by (simp del: str.simps)
qed

subsection \<open>The conversion of given texts\<close>

lemmas text_simps = apply_phrase_rules_def PHRASES_def py_lower_def re_sub_word_def
  tokenize_def punct_sub_def punct_template_def py_strip_def py_lstrip_def py_rstrip_def
  lit_at_def boundary_def char_match_def char_classes

lemmas token_simps = translate_token_def is_word_def py_lower_def
  english_plural_to_singular_def py_endswith_def suffix_to_prefix dict_has_def dict_get_def
  KEEP_ENGLISH_DEFAULT_def glue_set_def to_title_like_def Let_def char_classes

lemmas style_simps = styled_result_def postposition_styling_def telangana_slang_def
  re_search_words_def py_replace_def polite_ending_def ends_in_letter_def
  clean_punctuation_def normalize_spaces_def py_strip_def py_lstrip_def py_rstrip_def
  re_sub_word_def lit_at_def boundary_def char_match_def Let_def char_classes

lemma lookups:
  "map_of build_tenglish_dictionary (str ''will'') = None"
  "map_of build_tenglish_dictionary (str ''go'') = Some (str ''ellu'')"
  "map_of build_tenglish_dictionary (str ''will go'') = Some (str ''velta'')"
  "map_of build_tenglish_dictionary (str ''chala'') = None"
  "map_of build_tenglish_dictionary (str ''thanks'') = Some (str ''thanks'')"
  "map_of build_tenglish_dictionary (str ''thank'') = None"
  "map_of build_tenglish_dictionary (str ''i'') = Some (str ''nenu'')"
  "map_of build_tenglish_dictionary (str ''am'') = Some (str ''unna'')"
  "map_of build_tenglish_dictionary (str ''going'') = Some (str ''veltunna'')"
  "map_of build_tenglish_dictionary (str ''to'') = Some (str ''ki'')"
  "map_of build_tenglish_dictionary (str ''now'') = Some (str ''ippudu'')"
  "map_of build_tenglish_dictionary (str ''you'') = Some (str ''nuvvu'')"
  "map_of build_tenglish_dictionary (str ''come'') = Some (str ''ra'')"
  by (simp_all add: lookup_simps)

text \<open>The text \<open>will go\<close>.\<close>

lemma tokens_will_go: "tokenize (apply_phrase_rules (str ''will go'')) = [str ''will'', str ''go'']"
  by (simp add: text_simps)

lemma out_will_go:
  "translate_token 0 True build_tenglish_dictionary KEEP_ENGLISH_DEFAULT (str ''will'') = str ''will''"
  "translate_token 0 True build_tenglish_dictionary KEEP_ENGLISH_DEFAULT (str ''go'') = str ''go''"
  "translate_token 100 True build_tenglish_dictionary KEEP_ENGLISH_DEFAULT (str ''go'') = str ''ellu''"
  "translate_token 65 True build_tenglish_dictionary (insert (str ''go'') KEEP_ENGLISH_DEFAULT)
     (str ''will'') = str ''will''"
  "translate_token 65 True build_tenglish_dictionary (insert (str ''go'') KEEP_ENGLISH_DEFAULT)
     (str ''go'') = str ''go''"
  using lookups by (simp_all add: token_simps)

lemma multiword_will_go:
  "multiword_replacements build_tenglish_dictionary (str ''will go'') = str ''velta''"
  by (rule multiword_single [OF lookups(3)])
     (simp_all add: re_sub_word_def scan_simps)

lemma styled_velta: "clean_punctuation (styled_result False True False (str ''velta'')) = str ''velta''"
  by (simp add: style_simps)

lemma not_blank:
  "py_strip (str ''will go'') \<noteq> []"
  "py_strip (str ''Thanks a lot'') \<noteq> []"
  "py_strip (str ''I am going to office now.'') \<noteq> []"
  "py_strip (str ''you come now'') \<noteq> []"
  by (simp_all add: text_simps)

lemma convert_will_go:
  "convert_to_tenglish (str ''will go'') 0 True False True False build_tenglish_dictionary
     KEEP_ENGLISH_DEFAULT = str ''velta''"
  "convert_to_tenglish (str ''will go'') 65 True False True False build_tenglish_dictionary
     (insert (str ''go'') KEEP_ENGLISH_DEFAULT) = str ''velta''"
  using not_blank tokens_will_go out_will_go multiword_will_go styled_velta
  by (simp_all add: convert_to_tenglish_def translated_result_def)

lemma glue_go: "str ''go'' \<notin> glue_set"
  by (simp add: glue_set_def)

lemma keep_go: "str ''go'' \<notin> KEEP_ENGLISH_DEFAULT"
  by (simp add: KEEP_ENGLISH_DEFAULT_def)

lemma word_go: "is_word (str ''go'')" "english_plural_to_singular (str ''go'') = str ''go''"
  "py_lower (str ''go'') = str ''go''"
  by (simp_all add: token_simps)

text \<open>The text \<open>Thanks a lot\<close>.\<close>

lemma tokens_thanks:
  "tokenize (apply_phrase_rules (str ''Thanks a lot'')) = [str ''chala'', str ''thanks'']"
  by (simp add: text_simps)

lemma out_thanks:
  "translate_token 65 True build_tenglish_dictionary KEEP_ENGLISH_DEFAULT (str ''chala'') = str ''chala''"
  "translate_token 65 True build_tenglish_dictionary KEEP_ENGLISH_DEFAULT (str ''thanks'') = str ''thanks''"
  using lookups by (simp_all add: token_simps)

lemma multiword_thanks:
  "multiword_replacements build_tenglish_dictionary (str ''chala thanks'') = str ''chala thanks''"
  by (rule multiword_unchanged) (simp_all add: scan_simps)

lemma styled_thanks:
  "clean_punctuation (styled_result False True False (str ''chala thanks'')) = str ''chala thanks''"
  by (simp add: style_simps)

text \<open>The text \<open>I am going to office now.\<close>\<close>

lemma tokens_office:
  "tokenize (apply_phrase_rules (str ''I am going to office now.'')) =
     [str ''i'', str ''am'', str ''going'', str ''to'', str ''office'', str ''now'', str [CHR 0x5C, CHR ''1'']]"
  by (simp add: text_simps)

lemma out_office:
  "translate_token 65 True build_tenglish_dictionary KEEP_ENGLISH_DEFAULT (str ''i'') = str ''nenu''"
  "translate_token 65 True build_tenglish_dictionary KEEP_ENGLISH_DEFAULT (str ''am'') = str ''unna''"
  "translate_token 65 True build_tenglish_dictionary KEEP_ENGLISH_DEFAULT (str ''going'') = str ''veltunna''"
  "translate_token 65 True build_tenglish_dictionary KEEP_ENGLISH_DEFAULT (str ''to'') = str ''ki''"
  "translate_token 65 True build_tenglish_dictionary KEEP_ENGLISH_DEFAULT (str ''office'') = str ''office''"
  "translate_token 65 True build_tenglish_dictionary KEEP_ENGLISH_DEFAULT (str ''now'') = str ''ippudu''"
  "translate_token 65 True build_tenglish_dictionary KEEP_ENGLISH_DEFAULT (str [CHR 0x5C, CHR ''1''])
     = str [CHR 0x5C, CHR ''1'']"
  using lookups by (simp_all add: token_simps)

lemma multiword_office:
  "multiword_replacements build_tenglish_dictionary
     (str ''nenu unna veltunna ki office ippudu '' @ str [CHR 0x5C, CHR ''1'']) =
   str ''nenu unna veltunna ki office ippudu '' @ str [CHR 0x5C, CHR ''1'']"
  by (rule multiword_unchanged) (simp_all add: scan_simps)

lemma styled_office:
  "clean_punctuation (styled_result False True False
     (str ''nenu unna veltunna ki office ippudu '' @ str [CHR 0x5C, CHR ''1''])) =
   str ''nenu unna veltunna ki office ippudu '' @ str [CHR 0x5C, CHR ''1'']"
  by (simp add: style_simps)

text \<open>The text \<open>you come now\<close>.\<close>

lemma tokens_come:
  "tokenize (apply_phrase_rules (str ''you come now'')) = [str ''you'', str ''come'', str ''now'']"
  by (simp add: text_simps)

lemma out_come:
  "translate_token 65 True build_tenglish_dictionary KEEP_ENGLISH_DEFAULT (str ''you'') = str ''nuvvu''"
  "translate_token 65 True build_tenglish_dictionary KEEP_ENGLISH_DEFAULT (str ''come'') = str ''ra''"
  using lookups by (simp_all add: token_simps)

lemma multiword_come:
  "multiword_replacements build_tenglish_dictionary (str ''nuvvu ra ippudu'') = str ''nuvvu ra ippudu''"
  by (rule multiword_unchanged) (simp_all add: scan_simps)

lemma styled_come:
  "styled_result False True True (str ''nuvvu ra ippudu'') = str ''nuvvu ra ippudu''"
  "clean_punctuation (str ''nuvvu ra ippudu'') = str ''nuvvu ra ippudu''"
  by (simp_all add: style_simps)

lemma translated_come:
  "translated_result (str ''you come now'') 65 True build_tenglish_dictionary KEEP_ENGLISH_DEFAULT
     = str ''nuvvu ra ippudu''"
  using tokens_come out_come out_office multiword_come
  by (simp add: translated_result_def)

text \<open>The text of U+03D2, a space and \<open>HELLO\<close>.\<close>

lemma lookup_hello: "map_of build_tenglish_dictionary (str ''hello'') = Some (str ''hello'')"
  by (simp add: lookup_simps)

lemma tokens_hook:
  "tokenize (apply_phrase_rules (Upsilon_Hook # str '' HELLO'')) = [[Upsilon_Hook], str ''hello'']"
  by (simp add: text_simps)

lemma out_hook:
  "translate_token 65 True build_tenglish_dictionary KEEP_ENGLISH_DEFAULT [Upsilon_Hook]
     = [Upsilon_Hook]"
  "translate_token 65 True build_tenglish_dictionary KEEP_ENGLISH_DEFAULT (str ''hello'')
     = str ''hello''"
  using lookup_hello by (simp_all add: token_simps)

lemma multiword_hook:
  "multiword_replacements build_tenglish_dictionary (Upsilon_Hook # str '' hello'')
     = Upsilon_Hook # str '' hello''"
  by (rule multiword_unchanged) (simp_all add: scan_simps)

lemma styled_hook:
  "clean_punctuation (styled_result False True False (Upsilon_Hook # str '' hello''))
     = Upsilon_Hook # str '' hello''"
  by (simp add: style_simps)

lemma not_blank_hook: "py_strip (Upsilon_Hook # str '' HELLO'') \<noteq> []"
  by (simp add: text_simps)

subsection \<open>Punctuation\<close>

text \<open>
  The tokenizer replaces every punctuation mark by a backslash and the digit 1, so
  with the dictionary of the builder no punctuation mark reaches the output.
\<close>

lemma punct_sub_no_punct: "list_all (\<lambda>c. \<not> is_punct c) (punct_sub s)"
  by (induction s) (simp_all add: punct_sub_def punct_template_def latin_punct_def)

lemma tokens_no_punct: "list_all (list_all (\<lambda>c. \<not> is_punct c)) (tokenize s)"
  using py_split_all [OF punct_sub_no_punct, of s]
  by (auto simp: tokenize_def list_all_iff)

lemma entries_no_punct: "list_all (\<lambda>kv. list_all (\<lambda>c. \<not> is_punct c) (snd kv)) all_entries"
  by (simp add: all_entries_def base_def fixed_phrases_def keep_nouns_def verb_bank_def
        verb_entries_def irregular_past_def is_punct_60 latin_punct_def Let_def)

lemma convert_no_punct:
  "list_all (\<lambda>c. \<not> is_punct c)
     (convert_to_tenglish text s k p a sl build_tenglish_dictionary ks)"
proof -
  let ?P = "\<lambda>c. \<not> is_punct c"
  let ?r = "translated_result text s k build_tenglish_dictionary ks"
  let ?r1 = "if a then postposition_styling ?r else ?r"
  have sp: "?P (Latin CHR '' '')"
    by (simp add: latin_punct_def)
  have strs: "list_all ?P (str '' raandikloth'')" "list_all ?P (str ''kilotho'')"
    by (simp_all add: latin_punct_def)
  have q: "is_punct (Latin CHR ''?'')"
    by (simp add: latin_punct_def)
  have vals: "list_all ?P v" if "map_of build_tenglish_dictionary key = Some v" for key v
    using build_value_in [OF that] entries_no_punct by (auto simp: list_all_iff)
  have t: "list_all ?P ?r"
    using tokens_no_punct sp vals by (rule translated_result_all)
  have "list_all ?P ?r1"
    by (cases a) (simp_all only: if_True if_False t postposition_styling_all [OF t strs(2)])
  then have "Latin CHR ''?'' \<notin> set ?r1"
    using q unfolding list_all_iff by blast
  then have "list_all ?P (styled_result p a sl ?r)"
    by (intro styled_result_all [OF t strs(1)]) (rule notE)
  then have "list_all ?P (clean_punctuation (styled_result p a sl ?r))"
    using sp by (rule clean_punctuation_all)
  then show ?thesis
    by (simp add: convert_to_tenglish_def)
qed

text \<open>
  Claim C1 on the code. The tokenizer turns the full stop of \<open>now.\<close> into the token
  of a backslash and the digit 1, and the conversion of \<open>I am going to office now.\<close>
  with strength 65, the English nouns kept and the postpositions styled ends in that
  token, after a space, not in a full stop.
\<close>

theorem C1_punctuation_lost:
  "tokenize (str ''now.'') = [str ''now'', str [CHR 0x5C, CHR ''1'']]
   \<and> convert_to_tenglish (str ''I am going to office now.'') 65 True False True False
       build_tenglish_dictionary KEEP_ENGLISH_DEFAULT
     = str ''nenu unna veltunna ki office ippudu '' @ str [CHR 0x5C, CHR ''1'']"
proof -
  have "tokenize (str ''now.'') = [str ''now'', str [CHR 0x5C, CHR ''1'']]"
    by (simp add: text_simps)
  moreover have "translated_result (str ''I am going to office now.'') 65 True
      build_tenglish_dictionary KEEP_ENGLISH_DEFAULT
    = str ''nenu unna veltunna ki office ippudu '' @ str [CHR 0x5C, CHR ''1'']"
    using multiword_office tokens_office out_office by (simp add: translated_result_def)
  ultimately show ?thesis
    using styled_office not_blank by (simp add: convert_to_tenglish_def)
qed

subsection \<open>The decision for one token\<close>

text \<open>
  Claim C2, as the code has it. A word token of the text whose lower case form or
  singular form is a key of the dictionary, and which the keep-English check does not
  hold back, is turned by the loop over the tokens into its dictionary value if the
  strength is at least 35 or one of the two forms is in the glue set, and into its
  lower case form otherwise; so at strength 100 into its dictionary value, and at
  strength 0 into its dictionary value exactly if it is a glue word. The token is in
  lower case already, and the value is emitted as the dictionary has it. What the later
  replacement of multiword keys and the styling of postpositions do to the emitted
  words does not depend on the strength.
\<close>

theorem C2_strength_gating:
  assumes "tok \<in> set (tokenize (apply_phrase_rules text))" and "is_word tok"
    and "dict_has d (py_lower tok) \<or> dict_has d (english_plural_to_singular (py_lower tok))"
    and "\<not> (k \<and> (py_lower tok \<in> ks \<or> english_plural_to_singular (py_lower tok) \<in> ks))"
  shows "py_lower tok = tok
    \<and> translate_token s k d ks tok =
       (if 35 \<le> s \<or> py_lower tok \<in> glue_set
           \<or> english_plural_to_singular (py_lower tok) \<in> glue_set
        then dict_get d (py_lower tok)
               (dict_get d (english_plural_to_singular (py_lower tok)) (py_lower tok))
        else py_lower tok)
    \<and> translate_token 100 k d ks tok =
         dict_get d (py_lower tok)
           (dict_get d (english_plural_to_singular (py_lower tok)) (py_lower tok))
    \<and> translate_token 0 k d ks tok =
       (if py_lower tok \<in> glue_set \<or> english_plural_to_singular (py_lower tok) \<in> glue_set
        then dict_get d (py_lower tok)
               (dict_get d (english_plural_to_singular (py_lower tok)) (py_lower tok))
        else py_lower tok)"
proof -
  from assms(1,2) have low: "no_upper tok"
    by (rule word_tokens_lower)
  have id: "py_lower tok = tok"
    by (rule py_lower_id [OF low])
  have "translate_token s' k d ks tok =
       (if 35 \<le> s' \<or> tok \<in> glue_set \<or> english_plural_to_singular tok \<in> glue_set
        then dict_get d tok (dict_get d (english_plural_to_singular tok) tok)
        else tok)" for s'
    using assms(2-4) unfolding id translate_token_lower [OF no_upper_lowered [OF low]] by auto
  then show ?thesis
    unfolding id by simp
qed

theorem C2_strength_gating_witness:
  "str ''go'' \<in> set (tokenize (apply_phrase_rules (str ''will go''))) \<and> is_word (str ''go'')
   \<and> dict_has build_tenglish_dictionary (str ''go'')
   \<and> str ''go'' \<notin> KEEP_ENGLISH_DEFAULT \<and> str ''go'' \<notin> glue_set
   \<and> translate_token 35 True build_tenglish_dictionary KEEP_ENGLISH_DEFAULT (str ''go'') = str ''ellu''
   \<and> translate_token 34 True build_tenglish_dictionary KEEP_ENGLISH_DEFAULT (str ''go'') = str ''go''
   \<and> translate_token 100 True build_tenglish_dictionary KEEP_ENGLISH_DEFAULT (str ''go'') = str ''ellu''
   \<and> translate_token 0 True build_tenglish_dictionary KEEP_ENGLISH_DEFAULT (str ''go'') = str ''go''"
proof -
  have a: "str ''go'' \<in> set (tokenize (apply_phrase_rules (str ''will go'')))"
    using tokens_will_go by simp
  have b: "dict_has build_tenglish_dictionary (str ''go'')"
    using lookups(2) by (simp add: dict_has_def)
  note c = keep_go
  have h3: "dict_has build_tenglish_dictionary (py_lower (str ''go''))
      \<or> dict_has build_tenglish_dictionary (english_plural_to_singular (py_lower (str ''go'')))"
    using b word_go by simp
  have h4: "\<not> (True \<and> (py_lower (str ''go'') \<in> KEEP_ENGLISH_DEFAULT
      \<or> english_plural_to_singular (py_lower (str ''go'')) \<in> KEEP_ENGLISH_DEFAULT))"
    using c word_go by simp
  show ?thesis
    using C2_strength_gating [OF a word_go(1) h3 h4, of 35]
      C2_strength_gating [OF a word_go(1) h3 h4, of 34] a b c glue_go word_go lookups(2)
    by (simp add: dict_get_def)
qed

text \<open>
  The claim as the specification states it fails: at strength 0 the word \<open>go\<close> of
  \<open>will go\<close>, a key of the dictionary outside the glue set and the keep-English set,
  does not remain in the output, which is the value of the multiword key \<open>will go\<close>.
\<close>

theorem C2_strength_gating_counterexample:
  "str ''go'' \<in> set (tokenize (apply_phrase_rules (str ''will go'')))
   \<and> dict_has build_tenglish_dictionary (str ''go'')
   \<and> str ''go'' \<notin> glue_set \<and> str ''go'' \<notin> KEEP_ENGLISH_DEFAULT
   \<and> convert_to_tenglish (str ''will go'') 0 True False True False build_tenglish_dictionary
       KEEP_ENGLISH_DEFAULT = str ''velta''"
  using tokens_will_go lookups(2) glue_go keep_go convert_will_go(1)
  by (simp add: dict_has_def)

subsection \<open>The keep-English check\<close>

text \<open>
  With the English nouns kept, a word token of the text whose lower case form or
  singular form is in the keep-English set is turned by the loop over the tokens into
  its lower case form, which it is already, whatever the dictionary and the strength;
  so that form is among the emitted words.
\<close>

lemma keep_token:
  assumes "tok \<in> set (tokenize (apply_phrase_rules text))" and "is_word tok"
    and "py_lower tok \<in> ks \<or> english_plural_to_singular (py_lower tok) \<in> ks"
  shows "translate_token s True d ks tok = py_lower tok \<and> py_lower tok = tok
    \<and> py_lower tok \<in> set (map (translate_token s True d ks)
         (tokenize (apply_phrase_rules text)))"
proof -
  have e: "translate_token s True d ks tok = py_lower tok"
    using assms(2,3) by (simp add: translate_token_def Let_def)
  from assms(1,2) have "no_upper tok"
    by (rule word_tokens_lower)
  then have "py_lower tok = tok"
    by (rule py_lower_id)
  moreover have "translate_token s True d ks tok
      \<in> set (map (translate_token s True d ks) (tokenize (apply_phrase_rules text)))"
    using assms(1) by simp
  ultimately show ?thesis
    using e by simp
qed

text \<open>
  Claim C3 on the code. The keep-English set of a conversion is the default set and
  the words of the field \<open>Always keep these English\<close>. With \<open>go\<close> entered there,
  strength 65, the English nouns kept and the postpositions styled, the loop over the
  tokens emits the two words of \<open>will go\<close> as they are, \<open>go\<close> because it is in the
  keep-English set. The replacement of the multiword keys, which does not consult the
  keep-English set, then turns \<open>will go\<close> into the value of the key \<open>will go\<close>: the
  output is \<open>velta\<close>, and the word \<open>go\<close> that was to be kept is translated.
\<close>

theorem C3_keep_word_translated:
  "str ''go'' \<in> insert (str ''go'') KEEP_ENGLISH_DEFAULT
   \<and> map (translate_token 65 True build_tenglish_dictionary
           (insert (str ''go'') KEEP_ENGLISH_DEFAULT))
       (tokenize (apply_phrase_rules (str ''will go''))) = [str ''will'', str ''go'']
   \<and> multiword_replacements build_tenglish_dictionary (str ''will go'') = str ''velta''
   \<and> convert_to_tenglish (str ''will go'') 65 True False True False build_tenglish_dictionary
       (insert (str ''go'') KEEP_ENGLISH_DEFAULT) = str ''velta''"
  using tokens_will_go out_will_go(4,5) multiword_will_go convert_will_go(2)
  by simp

subsection \<open>Capital letters\<close>

text \<open>
  Claim C4 on the code. \<open>to_title_like\<close> puts the capital of \<open>Thanks\<close> on a
  replacement, but the phrase rules hand the text on in lower case, so no token has a
  capital to restore: with strength 65, the English nouns kept and the postpositions
  styled, the output for \<open>Thanks a lot\<close> is \<open>chala thanks\<close>, without a capital.
\<close>

theorem C4_capital_not_restored:
  "to_title_like (str ''Thanks'') (str ''chala thanks'') = str ''Chala thanks''
   \<and> apply_phrase_rules (str ''Thanks a lot'') = str ''chala thanks''
   \<and> convert_to_tenglish (str ''Thanks a lot'') 65 True False True False
       build_tenglish_dictionary KEEP_ENGLISH_DEFAULT = str ''chala thanks''"
proof -
  have "to_title_like (str ''Thanks'') (str ''chala thanks'') = str ''Chala thanks''"
    by (simp add: to_title_like_def latin_upper_def code_def char_of_eq_iff char_classes)
  moreover have "apply_phrase_rules (str ''Thanks a lot'') = str ''chala thanks''"
    by (simp add: text_simps)
  moreover have "translated_result (str ''Thanks a lot'') 65 True build_tenglish_dictionary
      KEEP_ENGLISH_DEFAULT = str ''chala thanks''"
    using tokens_thanks out_thanks multiword_thanks by (simp add: translated_result_def)
  ultimately show ?thesis
    using styled_thanks not_blank by (simp add: convert_to_tenglish_def)
qed

subsection \<open>A statement of three words\<close>

text \<open>
  The claim C7 as the specification states it fails: the translation of the statement
  \<open>you come now\<close> holds the standalone word \<open>ra\<close>, so the slang pass adds nothing,
  and neither the result before the cleaning of the spacing nor the output ends in
  \<open>ra\<close>.
\<close>

theorem C7_telangana_slang_counterexample:
  "py_split (str ''you come now'') = [str ''you'', str ''come'', str ''now'']
   \<and> Latin CHR ''?'' \<notin> set (str ''you come now'')
   \<and> styled_result False True True
       (translated_result (str ''you come now'') 65 True build_tenglish_dictionary
          KEEP_ENGLISH_DEFAULT) = str ''nuvvu ra ippudu''
   \<and> convert_to_tenglish (str ''you come now'') 65 True False True True build_tenglish_dictionary
       KEEP_ENGLISH_DEFAULT = str ''nuvvu ra ippudu''
   \<and> \<not> suffix (str '' ra'') (str ''nuvvu ra ippudu'')"
proof -
  have "py_split (str ''you come now'') = [str ''you'', str ''come'', str ''now'']"
    by (simp add: char_classes)
  moreover have "\<not> suffix (str '' ra'') (str ''nuvvu ra ippudu'')"
    by (simp add: suffix_to_prefix)
  ultimately show ?thesis
    using not_blank translated_come styled_come by (simp add: convert_to_tenglish_def)
qed

subsection \<open>An upper case letter without a lower case form\<close>

text \<open>
  The claim C10 as the specification states it fails: \<open>str.lower\<close> leaves the upper
  case letter U+03D2 as it is, the letter is no word token, so the loop over the tokens
  emits it unchanged, and with strength 65, the English nouns kept and the
  postpositions styled, the output for U+03D2, a space and \<open>HELLO\<close> begins with that
  upper case letter.
\<close>

theorem C10_output_lower_case_counterexample:
  "py_isupper Upsilon_Hook
   \<and> py_lower (Upsilon_Hook # str '' HELLO'') = Upsilon_Hook # str '' hello''
   \<and> \<not> is_word [Upsilon_Hook]
   \<and> convert_to_tenglish (Upsilon_Hook # str '' HELLO'') 65 True False True False
       build_tenglish_dictionary KEEP_ENGLISH_DEFAULT = Upsilon_Hook # str '' hello''
   \<and> \<not> no_upper (Upsilon_Hook # str '' hello'')"
proof -
  have "py_lower (Upsilon_Hook # str '' HELLO'') = Upsilon_Hook # str '' hello''"
    by (simp add: py_lower_def char_classes)
  moreover have "\<not> is_word [Upsilon_Hook]"
    by (simp add: is_word_def)
  moreover have "translated_result (Upsilon_Hook # str '' HELLO'') 65 True
      build_tenglish_dictionary KEEP_ENGLISH_DEFAULT = Upsilon_Hook # str '' hello''"
    using tokens_hook out_hook multiword_hook by (simp add: translated_result_def)
  ultimately show ?thesis
    using styled_hook not_blank_hook by (simp add: convert_to_tenglish_def)
qed

end
